theory Spec2Isabelle
  imports Main
begin

section \<open>Python string operations used by the write path\<close>

text \<open>
  Python strings are sequences of code points. The model uses \<open>string\<close>, whose characters
  are the code points 0..255, so it covers the Latin-1 range of \<open>str\<close>; code points
  above 255 are outside the model.

  \<open>isspace\<close> is the set of code points below 256 for which \<open>str.isspace\<close> holds, which
  is what \<open>str.strip()\<close> without argument removes from both ends.
\<close>

definition isspace :: "char \<Rightarrow> bool" where
  "isspace c = (of_char c \<in> set [9, 10, 11, 12, 13, 28, 29, 30, 31, 32, 133, 160 :: nat])"

definition strip :: "string \<Rightarrow> string" where
  "strip s = rev (dropWhile isspace (rev (dropWhile isspace s)))"

text \<open>\<open>s.replace(old, new)\<close> for one-character \<open>old\<close> and \<open>new\<close>.\<close>

definition replace_char :: "char \<Rightarrow> char \<Rightarrow> string \<Rightarrow> string" where
  "replace_char old new s = map (\<lambda>c. if c = old then new else c) s"

text \<open>
  \<open>str.lower()\<close> below code point 256: A..Z and the Latin-1 capitals (192..222 without
  the multiplication sign 215) move up by 32, every other code point stays.
\<close>

definition lower_char :: "char \<Rightarrow> char" where
  "lower_char c =
     (let n = (of_char c :: nat)
      in if (65 \<le> n \<and> n \<le> 90) \<or> (192 \<le> n \<and> n \<le> 222 \<and> n \<noteq> 215)
         then char_of (n + 32) else c)"

definition lower :: "string \<Rightarrow> string" where
  "lower s = map lower_char s"


section \<open>Data model (models.py, schemas.py)\<close>

type_synonym datetime = int

text \<open>
  Every table class has \<open>id: int | None\<close>: \<open>None\<close> on an object that was constructed but
  not yet flushed, the primary key afterwards.
\<close>

record User =
  usr_id :: "int option"
  usr_username :: string
  usr_email :: string
  usr_hashed_password :: string

record FictionType =
  ft_id :: "int option"
  ft_name :: string
  ft_slug :: string

record Tag =
  tag_id :: "int option"
  tag_name :: string

record RecommendationTagLink =
  link_recommendation_id :: int
  link_tag_id :: int

record Recommendation =
  rec_id :: "int option"
  rec_title :: string
  rec_short_description :: string
  rec_opinion :: string
  rec_published :: datetime
  rec_updated :: "datetime option"
  rec_user_id :: int
  rec_fiction_type_id :: int

record Comment =
  com_id :: "int option"
  com_content :: string
  com_published :: datetime
  com_updated :: "datetime option"
  com_user_id :: int
  com_recommendation_id :: int

record Reaction =
  rea_id :: "int option"
  rea_is_positive :: bool
  rea_user_id :: int
  rea_recommendation_id :: int

text \<open>The tables the handlers read and write, each in insertion order.\<close>

record database =
  tbl_fiction_type :: "FictionType list"
  tbl_tag :: "Tag list"
  tbl_recommendation :: "Recommendation list"
  tbl_tagged_recommendations :: "RecommendationTagLink list"
  tbl_comment :: "Comment list"
  tbl_reaction :: "Reaction list"

text \<open>
  What a request sees of the process it runs in: the two \<open>published\<close> defaults of
  models.py, \<open>Field(default=datetime.utcnow())\<close>, are values computed when the class
  bodies are evaluated at import; \<open>env_utcnow\<close> is what \<open>datetime.utcnow()\<close> returns when
  the handler calls it during the request.
\<close>

record env =
  env_recommendation_published_default :: datetime
  env_comment_published_default :: datetime
  env_utcnow :: datetime

subsection \<open>Request bodies\<close>

record RecommendationCreate =
  rc_title :: string
  rc_short_description :: string
  rc_opinion :: string
  rc_fiction_type :: string
  rc_tags :: "string list"

text \<open>
  \<open>RecommendationUpdate\<close>: every field is optional with default \<open>None\<close>.
  \<open>data.dict(exclude_unset=True)\<close> keeps the fields the body mentions, so a field is
  in one of three states: not in the body, in the body as \<open>null\<close>, in the body with a value.
\<close>

datatype 'a field = Unset | SetNone | SetTo 'a

record RecommendationUpdate =
  ru_title :: "string field"
  ru_short_description :: "string field"
  ru_opinion :: "string field"
  ru_fiction_type :: "string field"
  ru_tags :: "string list field"

record CommentCreate =
  cc_content :: string

record CommentUpdate =
  cu_content :: string

record ReactionCreate =
  rac_is_positive :: bool

record ReactionUpdate =
  rau_is_positive :: bool

text \<open>The recommendation as the handlers return it: the refreshed row with its relationships.\<close>

record RecommendationRead =
  rr_recommendation :: Recommendation
  rr_fiction_type :: "FictionType option"
  rr_tags :: "Tag list"

subsection \<open>Errors\<close>

datatype verb = Update | Delete

datatype kind = KRecommendation | KComment | KReaction

datatype detail =
    RecommendationNotFound int
  | CommentNotFound int int
  | ReactionNotFound int int
  | NoPermission verb kind int
  | NoDataProvided
  | ReactionConflict int

text \<open>
  \<open>HTTPException\<close> carries the status code and the detail the handler raises it with.
  \<open>IntegrityError\<close> is the storage layer's exception for a violated constraint, and
  \<open>OverflowError\<close> the exception of the database driver for an integer parameter it
  cannot bind. No handler catches either, so the request ends as an internal server
  error.
\<close>

datatype error = HTTPException nat detail | IntegrityError | OverflowError

fun status_code :: "error \<Rightarrow> nat" where
  "status_code (HTTPException c d) = c"
| "status_code IntegrityError = 500"
| "status_code OverflowError = 500"

definition HTTP_400_BAD_REQUEST :: nat where "HTTP_400_BAD_REQUEST = 400"
definition HTTP_403_FORBIDDEN :: nat where "HTTP_403_FORBIDDEN = 403"
definition HTTP_404_NOT_FOUND :: nat where "HTTP_404_NOT_FOUND = 404"
definition HTTP_409_CONFLICT :: nat where "HTTP_409_CONFLICT = 409"


section \<open>Lookups (crud.py)\<close>

text \<open>
  The identifiers of a path are Python integers of any size (\<open>Annotated[int, Path()]\<close>)
  and the lookups pass them to the engine as parameters of the query. The engine of
  the tests (conftest.py, SQLite) binds an integer as a signed 64-bit value and its
  driver raises \<open>OverflowError\<close> for any other; the lookups below are the lookups on
  that engine.
\<close>

definition sqlite_integer :: "int \<Rightarrow> bool" where
  "sqlite_integer i = (- (2 ^ 63) \<le> i \<and> i < 2 ^ 63)"

definition get_recommendation_by_id ::
  "database \<Rightarrow> int \<Rightarrow> error + Recommendation option" where
  "get_recommendation_by_id session recommendation_id =
     (if sqlite_integer recommendation_id
      then Inr (find (\<lambda>r. rec_id r = Some recommendation_id) (tbl_recommendation session))
      else Inl OverflowError)"

definition get_comment_by_id_and_recommendation_id ::
  "database \<Rightarrow> int \<Rightarrow> int \<Rightarrow> error + Comment option" where
  "get_comment_by_id_and_recommendation_id session recommendation_id comment_id =
     (if sqlite_integer recommendation_id \<and> sqlite_integer comment_id
      then Inr (find (\<lambda>c. com_recommendation_id c = recommendation_id \<and>
                          com_id c = Some comment_id)
                  (tbl_comment session))
      else Inl OverflowError)"

text \<open>
  The handler passes \<open>recommendation.id\<close> and \<open>current_user.id\<close>, the identifiers of two
  loaded rows, both \<open>int | None\<close>; a comparison of a column with \<open>None\<close> matches no row
  of a non-null column.
\<close>

definition get_reaction_by_recommendation_id_and_user_id ::
  "database \<Rightarrow> int option \<Rightarrow> int option \<Rightarrow> Reaction option" where
  "get_reaction_by_recommendation_id_and_user_id session recommendation_id user_id =
     find (\<lambda>x. Some (rea_recommendation_id x) = recommendation_id \<and>
                Some (rea_user_id x) = user_id)
       (tbl_reaction session)"

definition get_reaction_by_id_and_recommendation_id ::
  "database \<Rightarrow> int \<Rightarrow> int \<Rightarrow> error + Reaction option" where
  "get_reaction_by_id_and_recommendation_id session recommendation_id reaction_id =
     (if sqlite_integer recommendation_id \<and> sqlite_integer reaction_id
      then Inr (find (\<lambda>x. rea_recommendation_id x = recommendation_id \<and>
                          rea_id x = Some reaction_id)
                  (tbl_reaction session))
      else Inl OverflowError)"


section \<open>Reference data: tags and fiction types (routers/recommendations.py)\<close>

text \<open>
  \<open>save_tags\<close>: the loop over the labels, appending to \<open>tag_objects\<close>. A tag that is not
  in the table is constructed and not added to the session.
\<close>

fun save_tags_loop :: "database \<Rightarrow> string list \<Rightarrow> Tag list \<Rightarrow> Tag list" where
  "save_tags_loop session [] tag_objects = tag_objects"
| "save_tags_loop session (tag # tags) tag_objects =
     (let tag' = lower (replace_char CHR '' '' CHR ''-'' (strip tag))
      in case find (\<lambda>t. tag_name t = tag') (tbl_tag session) of
           Some existing_tag \<Rightarrow> save_tags_loop session tags (tag_objects @ [existing_tag])
         | None \<Rightarrow>
             save_tags_loop session tags (tag_objects @ [\<lparr>tag_id = None, tag_name = tag'\<rparr>]))"

definition save_tags :: "database \<Rightarrow> string list \<Rightarrow> Tag list" where
  "save_tags session tags = save_tags_loop session tags []"

definition save_fiction_type :: "database \<Rightarrow> string \<Rightarrow> FictionType" where
  "save_fiction_type session fiction_type =
     (let fiction_type' = lower (strip fiction_type)
      in case find (\<lambda>f. ft_name f = fiction_type') (tbl_fiction_type session) of
           Some existing_fiction_type_object \<Rightarrow> existing_fiction_type_object
         | None \<Rightarrow>
             (let fiction_type_slug = replace_char CHR '' '' CHR ''-'' fiction_type'
              in \<lparr>ft_id = None, ft_name = fiction_type', ft_slug = fiction_type_slug\<rparr>))"


section \<open>The storage layer at commit\<close>

text \<open>
  The relational engine is outside the repository. It is modelled at its boundary, from
  what models.py and schemas.py declare: integer primary keys assigned on insert, the
  unique constraints on \<open>Tag.name\<close>, \<open>FictionType.name\<close> and \<open>FictionType.slug\<close>, the
  composite primary key of \<open>tagged_recommendations\<close>, the unique constraint
  \<open>user_recommendation_uc\<close> on reactions, and the \<open>delete\<close> cascades of the
  relationships. A violated constraint raises \<open>IntegrityError\<close> and the transaction
  is rolled back, so a failed commit leaves the tables as they were.
\<close>

definition fresh_id :: "int option list \<Rightarrow> int" where
  "fresh_id ids = fold max (List.map_filter (\<lambda>i. i) ids) 0 + 1"

definition flush_fiction_type ::
  "FictionType list \<Rightarrow> FictionType \<Rightarrow> error + (FictionType list \<times> int)" where
  "flush_fiction_type table fiction_type =
     (case ft_id fiction_type of
        Some i \<Rightarrow> Inr (table, i)
      | None \<Rightarrow>
          if \<exists>x \<in> set table. ft_name x = ft_name fiction_type \<or> ft_slug x = ft_slug fiction_type
          then Inl IntegrityError
          else (let i = fresh_id (map ft_id table)
                in Inr (table @ [fiction_type\<lparr>ft_id := Some i\<rparr>], i)))"

text \<open>
  Every object of the list without a primary key is one INSERT; two objects constructed
  with the same name are two INSERTs.
\<close>

fun flush_tags :: "Tag list \<Rightarrow> Tag list \<Rightarrow> error + (Tag list \<times> int list)" where
  "flush_tags table [] = Inr (table, [])"
| "flush_tags table (t # ts) =
     (case tag_id t of
        Some i \<Rightarrow>
          (case flush_tags table ts of
             Inl e \<Rightarrow> Inl e
           | Inr (table', ids) \<Rightarrow> Inr (table', i # ids))
      | None \<Rightarrow>
          if \<exists>x \<in> set table. tag_name x = tag_name t then Inl IntegrityError
          else (let i = fresh_id (map tag_id table)
                in case flush_tags (table @ [t\<lparr>tag_id := Some i\<rparr>]) ts of
                     Inl e \<Rightarrow> Inl e
                   | Inr (table', ids) \<Rightarrow> Inr (table', i # ids)))"

definition insert_links ::
  "RecommendationTagLink list \<Rightarrow> RecommendationTagLink list \<Rightarrow>
   error + RecommendationTagLink list" where
  "insert_links table rows =
     (if distinct rows \<and> (\<forall>l \<in> set rows. l \<notin> set table) then Inr (table @ rows)
      else Inl IntegrityError)"

definition insert_reaction :: "Reaction list \<Rightarrow> Reaction \<Rightarrow> error + Reaction list" where
  "insert_reaction table row =
     (if \<exists>x \<in> set table. rea_user_id x = rea_user_id row \<and>
                            rea_recommendation_id x = rea_recommendation_id row
      then Inl IntegrityError
      else Inr (table @ [row]))"

text \<open>
  \<open>session.refresh\<close> and the relationship loads behind the response: the fiction type of
  the row, and the tags that a link row joins to it. The query for the tags has no
  ORDER BY; the tags come in the order of the tag table, which is the order of their
  primary keys on the engine of the tests.
\<close>

definition load_recommendation :: "database \<Rightarrow> Recommendation \<Rightarrow> RecommendationRead" where
  "load_recommendation session r =
     \<lparr>rr_recommendation = r,
      rr_fiction_type =
        find (\<lambda>f. ft_id f = Some (rec_fiction_type_id r)) (tbl_fiction_type session),
      rr_tags =
        filter (\<lambda>t. \<exists>l \<in> set (tbl_tagged_recommendations session).
                      Some (link_recommendation_id l) = rec_id r \<and>
                      Some (link_tag_id l) = tag_id t)
          (tbl_tag session)\<rparr>"

text \<open>
  The commit of \<open>post_recommendation\<close>: the new fiction type and the new tags are
  inserted with the recommendation that references them, then one link row per element
  of \<open>tags\<close>. \<open>user_id\<close> is a non-null column.
\<close>

definition commit_new_recommendation ::
  "database \<Rightarrow> string \<Rightarrow> string \<Rightarrow> string \<Rightarrow> datetime \<Rightarrow> FictionType \<Rightarrow> Tag list \<Rightarrow> User \<Rightarrow>
   error + (database \<times> Recommendation)" where
  "commit_new_recommendation session title short_description opinion published
       fiction_type tags user =
     (case usr_id user of
        None \<Rightarrow> Inl IntegrityError
      | Some uid \<Rightarrow>
     (case flush_fiction_type (tbl_fiction_type session) fiction_type of
        Inl e \<Rightarrow> Inl e
      | Inr (fiction_types, fid) \<Rightarrow>
     (case flush_tags (tbl_tag session) tags of
        Inl e \<Rightarrow> Inl e
      | Inr (tag_rows, tag_ids) \<Rightarrow>
          (let rid = fresh_id (map rec_id (tbl_recommendation session));
               row = \<lparr>rec_id = Some rid, rec_title = title,
                      rec_short_description = short_description, rec_opinion = opinion,
                      rec_published = published, rec_updated = None,
                      rec_user_id = uid, rec_fiction_type_id = fid\<rparr>
           in case insert_links (tbl_tagged_recommendations session)
                     (map (\<lambda>i. \<lparr>link_recommendation_id = rid, link_tag_id = i\<rparr>) tag_ids) of
                Inl e \<Rightarrow> Inl e
              | Inr links \<Rightarrow>
                  Inr (session\<lparr>tbl_fiction_type := fiction_types, tbl_tag := tag_rows,
                              tbl_recommendation := tbl_recommendation session @ [row],
                              tbl_tagged_recommendations := links\<rparr>, row)))))"

text \<open>
  The commit of \<open>update_recommendation\<close>: the row is written back under its primary key;
  an assigned fiction type is inserted when it is new; an assigned \<open>tags\<close> list replaces
  the collection, which deletes the link rows of the tags no longer in it and inserts
  one link row per element that was not in it before.
\<close>

definition replace_tags ::
  "Tag list \<Rightarrow> RecommendationTagLink list \<Rightarrow> int \<Rightarrow> Tag list \<Rightarrow>
   error + (Tag list \<times> RecommendationTagLink list)" where
  "replace_tags table link_table rid ts =
     (case flush_tags table ts of
        Inl e \<Rightarrow> Inl e
      | Inr (tag_rows, tag_ids) \<Rightarrow>
          (let old = map link_tag_id (filter (\<lambda>l. link_recommendation_id l = rid) link_table);
               kept = filter (\<lambda>l. \<not> (link_recommendation_id l = rid \<and>
                                       link_tag_id l \<notin> set tag_ids)) link_table;
               added = filter (\<lambda>i. i \<notin> set old) tag_ids
           in case insert_links kept
                     (map (\<lambda>i. \<lparr>link_recommendation_id = rid, link_tag_id = i\<rparr>) added) of
                Inl e \<Rightarrow> Inl e
              | Inr links \<Rightarrow> Inr (tag_rows, links)))"

definition commit_recommendation_update ::
  "database \<Rightarrow> int \<Rightarrow> Recommendation \<Rightarrow> FictionType option \<Rightarrow> Tag list option \<Rightarrow>
   error + (database \<times> Recommendation)" where
  "commit_recommendation_update session rid recommendation new_fiction_type new_tags =
     (case (case new_fiction_type of
              None \<Rightarrow> Inr (tbl_fiction_type session, rec_fiction_type_id recommendation)
            | Some f \<Rightarrow> flush_fiction_type (tbl_fiction_type session) f) of
        Inl e \<Rightarrow> Inl e
      | Inr (fiction_types, fid) \<Rightarrow>
     (case (case new_tags of
              None \<Rightarrow> Inr (tbl_tag session, tbl_tagged_recommendations session)
            | Some ts \<Rightarrow>
                replace_tags (tbl_tag session) (tbl_tagged_recommendations session) rid ts) of
        Inl e \<Rightarrow> Inl e
      | Inr (tag_rows, links) \<Rightarrow>
          (let row = recommendation\<lparr>rec_fiction_type_id := fid\<rparr>
           in Inr (session\<lparr>tbl_fiction_type := fiction_types, tbl_tag := tag_rows,
                           tbl_recommendation :=
                             map (\<lambda>r. if rec_id r = Some rid then row else r)
                               (tbl_recommendation session),
                           tbl_tagged_recommendations := links\<rparr>, row))))"

text \<open>
  \<open>session.delete(recommendation)\<close> and commit: the row goes, the \<open>delete\<close> cascade of
  its \<open>comments\<close> and \<open>reactions\<close> relationships removes those rows, and its link rows
  are removed with it.
\<close>

definition commit_recommendation_delete :: "database \<Rightarrow> int \<Rightarrow> database" where
  "commit_recommendation_delete session rid =
     session\<lparr>tbl_recommendation :=
                filter (\<lambda>r. rec_id r \<noteq> Some rid) (tbl_recommendation session),
             tbl_tagged_recommendations :=
                filter (\<lambda>l. link_recommendation_id l \<noteq> rid) (tbl_tagged_recommendations session),
             tbl_comment :=
                filter (\<lambda>c. com_recommendation_id c \<noteq> rid) (tbl_comment session),
             tbl_reaction :=
                filter (\<lambda>x. rea_recommendation_id x \<noteq> rid) (tbl_reaction session)\<rparr>"


section \<open>Handlers\<close>

text \<open>
  A handler takes the session's view of the tables and returns its outcome with the
  tables after the request: \<open>Inl\<close> the exception that ends the request, \<open>Inr\<close> the
  response body. An exception a lookup raises ends the request before any write.
  \<open>current_user\<close> is what the dependency \<open>get_current_user\<close> resolved.
\<close>

text \<open>\<open>data.get(key)\<close> on \<open>data.dict(exclude_unset=True)\<close>, and what \<open>if value:\<close> tests.\<close>

fun get_field :: "'a field \<Rightarrow> 'a option" where
  "get_field Unset = None"
| "get_field SetNone = None"
| "get_field (SetTo v) = Some v"

fun truthy :: "'a list option \<Rightarrow> bool" where
  "truthy None = False"
| "truthy (Some v) = (v \<noteq> [])"

definition no_data :: "RecommendationUpdate \<Rightarrow> bool" where
  "no_data data =
     (ru_title data = Unset \<and> ru_short_description data = Unset \<and> ru_opinion data = Unset \<and>
      ru_fiction_type data = Unset \<and> ru_tags data = Unset)"

subsection \<open>routers/recommendations.py\<close>

text \<open>
  \<open>post_recommendation\<close> reads the tag and fiction type tables in \<open>save_tags\<close> and
  \<open>save_fiction_type\<close> and writes at \<open>session.commit()\<close>. \<open>post_recommendation_at\<close> is
  the handler with the tables at the commit as a second argument \<open>at_commit\<close>, for the
  request that runs while another request commits between its lookups and its commit;
  \<open>post_recommendation\<close> is the handler running alone.
\<close>

definition post_recommendation_at ::
  "env \<Rightarrow> database \<Rightarrow> database \<Rightarrow> RecommendationCreate \<Rightarrow> User \<Rightarrow>
   (error + RecommendationRead) \<times> database" where
  "post_recommendation_at e session at_commit data current_user =
     (let tags = save_tags session (rc_tags data);
          fiction_type = save_fiction_type session (rc_fiction_type data)
      in case commit_new_recommendation at_commit (rc_title data) (rc_short_description data)
                (rc_opinion data) (env_recommendation_published_default e)
                fiction_type tags current_user of
           Inl err \<Rightarrow> (Inl err, at_commit)
         | Inr (session', recommendation) \<Rightarrow>
             (Inr (load_recommendation session' recommendation), session'))"

definition post_recommendation ::
  "env \<Rightarrow> database \<Rightarrow> RecommendationCreate \<Rightarrow> User \<Rightarrow>
   (error + RecommendationRead) \<times> database" where
  "post_recommendation e session data current_user =
     post_recommendation_at e session session data current_user"

definition update_recommendation ::
  "env \<Rightarrow> database \<Rightarrow> int \<Rightarrow> User \<Rightarrow> RecommendationUpdate \<Rightarrow>
   (error + RecommendationRead) \<times> database" where
  "update_recommendation e session recommendation_id current_user data =
     (case get_recommendation_by_id session recommendation_id of
        Inl err \<Rightarrow> (Inl err, session)
      | Inr None \<Rightarrow>
          (Inl (HTTPException HTTP_404_NOT_FOUND (RecommendationNotFound recommendation_id)),
           session)
      | Inr (Some recommendation) \<Rightarrow>
          if Some (rec_user_id recommendation) \<noteq> usr_id current_user then
            (Inl (HTTPException HTTP_403_FORBIDDEN
                    (NoPermission Update KRecommendation recommendation_id)), session)
          else if no_data data then
            (Inl (HTTPException HTTP_400_BAD_REQUEST NoDataProvided), session)
          else
            (let new_title = get_field (ru_title data);
                 new_short_description = get_field (ru_short_description data);
                 new_opinion = get_field (ru_opinion data);
                 new_fiction_type = get_field (ru_fiction_type data);
                 new_tags = get_field (ru_tags data);
                 recommendation =
                   (if truthy new_title
                    then recommendation\<lparr>rec_title := the new_title\<rparr> else recommendation);
                 recommendation =
                   (if truthy new_short_description
                    then recommendation\<lparr>rec_short_description := the new_short_description\<rparr>
                    else recommendation);
                 recommendation =
                   (if truthy new_opinion
                    then recommendation\<lparr>rec_opinion := the new_opinion\<rparr> else recommendation);
                 fiction_type_object =
                   (if truthy new_fiction_type
                    then Some (save_fiction_type session (the new_fiction_type)) else None);
                 tag_objects =
                   (if truthy new_tags
                    then Some (save_tags session (the new_tags)) else None);
                 recommendation = recommendation\<lparr>rec_updated := Some (env_utcnow e)\<rparr>
             in case commit_recommendation_update session recommendation_id recommendation
                       fiction_type_object tag_objects of
                  Inl err \<Rightarrow> (Inl err, session)
                | Inr (session', recommendation') \<Rightarrow>
                    (Inr (load_recommendation session' recommendation'), session')))"

definition delete_recommendation ::
  "env \<Rightarrow> database \<Rightarrow> int \<Rightarrow> User \<Rightarrow> (error + unit) \<times> database" where
  "delete_recommendation e session recommendation_id current_user =
     (case get_recommendation_by_id session recommendation_id of
        Inl err \<Rightarrow> (Inl err, session)
      | Inr None \<Rightarrow>
          (Inl (HTTPException HTTP_404_NOT_FOUND (RecommendationNotFound recommendation_id)),
           session)
      | Inr (Some recommendation) \<Rightarrow>
          if Some (rec_user_id recommendation) \<noteq> usr_id current_user then
            (Inl (HTTPException HTTP_403_FORBIDDEN
                    (NoPermission Delete KRecommendation recommendation_id)), session)
          else (Inr (), commit_recommendation_delete session recommendation_id))"

subsection \<open>routers/comments.py\<close>

definition post_comment ::
  "env \<Rightarrow> database \<Rightarrow> int \<Rightarrow> User \<Rightarrow> CommentCreate \<Rightarrow> (error + Comment) \<times> database" where
  "post_comment e session recommendation_id current_user data =
     (case get_recommendation_by_id session recommendation_id of
        Inl err \<Rightarrow> (Inl err, session)
      | Inr None \<Rightarrow>
          (Inl (HTTPException HTTP_404_NOT_FOUND (RecommendationNotFound recommendation_id)),
           session)
      | Inr (Some recommendation) \<Rightarrow>
          (case (rec_id recommendation, usr_id current_user) of
             (Some rid, Some uid) \<Rightarrow>
               (let new_comment =
                      \<lparr>com_id = Some (fresh_id (map com_id (tbl_comment session))),
                       com_content = cc_content data,
                       com_published = env_comment_published_default e,
                       com_updated = None,
                       com_user_id = uid,
                       com_recommendation_id = rid\<rparr>
                in (Inr new_comment,
                    session\<lparr>tbl_comment := tbl_comment session @ [new_comment]\<rparr>))
           | _ \<Rightarrow> (Inl IntegrityError, session)))"

definition update_comment ::
  "env \<Rightarrow> database \<Rightarrow> int \<Rightarrow> int \<Rightarrow> CommentUpdate \<Rightarrow> User \<Rightarrow>
   (error + Comment) \<times> database" where
  "update_comment e session recommendation_id comment_id data current_user =
     (case get_recommendation_by_id session recommendation_id of
        Inl err \<Rightarrow> (Inl err, session)
      | Inr None \<Rightarrow>
          (Inl (HTTPException HTTP_404_NOT_FOUND (RecommendationNotFound recommendation_id)),
           session)
      | Inr (Some recommendation) \<Rightarrow>
     (case get_comment_by_id_and_recommendation_id session recommendation_id comment_id of
        Inl err \<Rightarrow> (Inl err, session)
      | Inr None \<Rightarrow>
          (Inl (HTTPException HTTP_404_NOT_FOUND (CommentNotFound comment_id recommendation_id)),
           session)
      | Inr (Some comment) \<Rightarrow>
          if Some (com_user_id comment) \<noteq> usr_id current_user then
            (Inl (HTTPException HTTP_403_FORBIDDEN (NoPermission Update KComment comment_id)),
             session)
          else
            (let new_content = Some (cu_content data);
                 comment =
                   (if truthy new_content
                    then comment\<lparr>com_content := the new_content\<rparr> else comment);
                 comment = comment\<lparr>com_updated := Some (env_utcnow e)\<rparr>
             in (Inr comment,
                 session\<lparr>tbl_comment :=
                            map (\<lambda>c. if com_id c = Some comment_id then comment else c)
                              (tbl_comment session)\<rparr>))))"

definition delete_comment ::
  "env \<Rightarrow> database \<Rightarrow> int \<Rightarrow> int \<Rightarrow> User \<Rightarrow> (error + unit) \<times> database" where
  "delete_comment e session recommendation_id comment_id current_user =
     (case get_recommendation_by_id session recommendation_id of
        Inl err \<Rightarrow> (Inl err, session)
      | Inr None \<Rightarrow>
          (Inl (HTTPException HTTP_404_NOT_FOUND (RecommendationNotFound recommendation_id)),
           session)
      | Inr (Some recommendation) \<Rightarrow>
     (case get_comment_by_id_and_recommendation_id session recommendation_id comment_id of
        Inl err \<Rightarrow> (Inl err, session)
      | Inr None \<Rightarrow>
          (Inl (HTTPException HTTP_404_NOT_FOUND (CommentNotFound comment_id recommendation_id)),
           session)
      | Inr (Some comment) \<Rightarrow>
          if Some (com_user_id comment) \<noteq> usr_id current_user then
            (Inl (HTTPException HTTP_403_FORBIDDEN (NoPermission Delete KComment comment_id)),
             session)
          else
            (Inr (),
             session\<lparr>tbl_comment :=
                        filter (\<lambda>c. com_id c \<noteq> Some comment_id) (tbl_comment session)\<rparr>)))"

subsection \<open>routers/reactions.py\<close>

definition post_reaction ::
  "env \<Rightarrow> database \<Rightarrow> int \<Rightarrow> User \<Rightarrow> ReactionCreate \<Rightarrow> (error + Reaction) \<times> database" where
  "post_reaction e session recommendation_id current_user data =
     (case get_recommendation_by_id session recommendation_id of
        Inl err \<Rightarrow> (Inl err, session)
      | Inr None \<Rightarrow>
          (Inl (HTTPException HTTP_404_NOT_FOUND (RecommendationNotFound recommendation_id)),
           session)
      | Inr (Some recommendation) \<Rightarrow>
     (case get_reaction_by_recommendation_id_and_user_id session
             (rec_id recommendation) (usr_id current_user) of
        Some existing_reaction \<Rightarrow>
          (Inl (HTTPException HTTP_409_CONFLICT (ReactionConflict recommendation_id)), session)
      | None \<Rightarrow>
          (case (rec_id recommendation, usr_id current_user) of
             (Some rid, Some uid) \<Rightarrow>
               (let new_reaction =
                      \<lparr>rea_id = Some (fresh_id (map rea_id (tbl_reaction session))),
                       rea_is_positive = rac_is_positive data,
                       rea_user_id = uid,
                       rea_recommendation_id = rid\<rparr>
                in case insert_reaction (tbl_reaction session) new_reaction of
                     Inl err \<Rightarrow> (Inl err, session)
                   | Inr reactions \<Rightarrow>
                       (Inr new_reaction, session\<lparr>tbl_reaction := reactions\<rparr>))
           | _ \<Rightarrow> (Inl IntegrityError, session))))"

definition update_reaction ::
  "env \<Rightarrow> database \<Rightarrow> int \<Rightarrow> int \<Rightarrow> ReactionUpdate \<Rightarrow> User \<Rightarrow>
   (error + Reaction) \<times> database" where
  "update_reaction e session recommendation_id reaction_id data current_user =
     (case get_recommendation_by_id session recommendation_id of
        Inl err \<Rightarrow> (Inl err, session)
      | Inr None \<Rightarrow>
          (Inl (HTTPException HTTP_404_NOT_FOUND (RecommendationNotFound recommendation_id)),
           session)
      | Inr (Some recommendation) \<Rightarrow>
     (case get_reaction_by_id_and_recommendation_id session recommendation_id reaction_id of
        Inl err \<Rightarrow> (Inl err, session)
      | Inr None \<Rightarrow>
          (Inl (HTTPException HTTP_404_NOT_FOUND (ReactionNotFound reaction_id recommendation_id)),
           session)
      | Inr (Some reaction) \<Rightarrow>
          if Some (rea_user_id reaction) \<noteq> usr_id current_user then
            (Inl (HTTPException HTTP_403_FORBIDDEN (NoPermission Update KReaction reaction_id)),
             session)
          else
            (let new_is_positive = rau_is_positive data;
                 reaction = reaction\<lparr>rea_is_positive := new_is_positive\<rparr>
             in (Inr reaction,
                 session\<lparr>tbl_reaction :=
                            map (\<lambda>x. if rea_id x = Some reaction_id then reaction else x)
                              (tbl_reaction session)\<rparr>))))"

definition delete_reaction ::
  "env \<Rightarrow> database \<Rightarrow> int \<Rightarrow> int \<Rightarrow> User \<Rightarrow> (error + unit) \<times> database" where
  "delete_reaction e session recommendation_id reaction_id current_user =
     (case get_recommendation_by_id session recommendation_id of
        Inl err \<Rightarrow> (Inl err, session)
      | Inr None \<Rightarrow>
          (Inl (HTTPException HTTP_404_NOT_FOUND (RecommendationNotFound recommendation_id)),
           session)
      | Inr (Some recommendation) \<Rightarrow>
     (case get_reaction_by_id_and_recommendation_id session recommendation_id reaction_id of
        Inl err \<Rightarrow> (Inl err, session)
      | Inr None \<Rightarrow>
          (Inl (HTTPException HTTP_404_NOT_FOUND (ReactionNotFound reaction_id recommendation_id)),
           session)
      | Inr (Some reaction) \<Rightarrow>
          if Some (rea_user_id reaction) \<noteq> usr_id current_user then
            (Inl (HTTPException HTTP_403_FORBIDDEN (NoPermission Delete KReaction reaction_id)),
             session)
          else
            (Inr (),
             session\<lparr>tbl_reaction :=
                        filter (\<lambda>x. rea_id x \<noteq> Some reaction_id) (tbl_reaction session)\<rparr>)))"


section \<open>Outcomes and example data\<close>

text \<open>The status code of the exception a request ended with, if it ended with one.\<close>

definition raised :: "(error + 'a) \<times> database \<Rightarrow> nat option" where
  "raised outcome = (case fst outcome of Inl err \<Rightarrow> Some (status_code err) | Inr _ \<Rightarrow> None)"

text \<open>
  A small database for the concrete instances below: one recommendation of user 1 with
  one comment and one reaction of that user, and a second user.
\<close>

definition alice :: User where
  "alice = \<lparr>usr_id = Some 1, usr_username = ''alice'', usr_email = ''alice@x.com'',
            usr_hashed_password = ''h1''\<rparr>"

definition bob :: User where
  "bob = \<lparr>usr_id = Some 2, usr_username = ''bobby'', usr_email = ''bob@x.com'',
          usr_hashed_password = ''h2''\<rparr>"

definition example_env :: env where
  "example_env = \<lparr>env_recommendation_published_default = 1000,
                  env_comment_published_default = 1001, env_utcnow = 5000\<rparr>"

definition example_recommendation :: Recommendation where
  "example_recommendation =
     \<lparr>rec_id = Some 1, rec_title = ''Interstellar'',
      rec_short_description = ''Movie about space'', rec_opinion = ''My favorite movie'',
      rec_published = 1000, rec_updated = None, rec_user_id = 1, rec_fiction_type_id = 1\<rparr>"

definition example_comment :: Comment where
  "example_comment =
     \<lparr>com_id = Some 1, com_content = ''My comment'', com_published = 1001,
      com_updated = None, com_user_id = 1, com_recommendation_id = 1\<rparr>"

definition example_reaction :: Reaction where
  "example_reaction =
     \<lparr>rea_id = Some 1, rea_is_positive = True, rea_user_id = 1, rea_recommendation_id = 1\<rparr>"

definition example_db :: database where
  "example_db =
     \<lparr>tbl_fiction_type = [\<lparr>ft_id = Some 1, ft_name = ''movie'', ft_slug = ''movie''\<rparr>],
      tbl_tag = [\<lparr>tag_id = Some 1, tag_name = ''space''\<rparr>],
      tbl_recommendation = [example_recommendation],
      tbl_tagged_recommendations = [\<lparr>link_recommendation_id = 1, link_tag_id = 1\<rparr>],
      tbl_comment = [example_comment],
      tbl_reaction = [example_reaction]\<rparr>"

definition example_update :: RecommendationUpdate where
  "example_update =
     \<lparr>ru_title = SetTo ''Dune'', ru_short_description = Unset, ru_opinion = Unset,
      ru_fiction_type = Unset, ru_tags = Unset\<rparr>"


text \<open>
  A creation request whose two labels differ in case and surrounding blanks only, and
  the example database after another request has inserted the tag \<open>sci-fy\<close>.
\<close>

definition duplicate_labels :: RecommendationCreate where
  "duplicate_labels =
     \<lparr>rc_title = ''Dune'', rc_short_description = ''Desert planet'',
      rc_opinion = ''Worth reading'', rc_fiction_type = ''movie'',
      rc_tags = [''Sci-Fy'', '' sci-fy '']\<rparr>"

definition one_label :: RecommendationCreate where
  "one_label = duplicate_labels\<lparr>rc_tags := [''Sci-Fy'']\<rparr>"

definition example_db_after_winner :: database where
  "example_db_after_winner =
     example_db\<lparr>tbl_tag := tbl_tag example_db @ [\<lparr>tag_id = Some 2, tag_name = ''sci-fy''\<rparr>]\<rparr>"

text \<open>
  A PATCH body with an empty title and a new opinion, a PUT body with empty content,
  and the environment of a later request of the same process.
\<close>

definition empty_title_update :: RecommendationUpdate where
  "empty_title_update =
     \<lparr>ru_title = SetTo [], ru_short_description = Unset, ru_opinion = SetTo ''Great'',
      ru_fiction_type = Unset, ru_tags = Unset\<rparr>"

definition empty_content :: CommentUpdate where
  "empty_content = \<lparr>cu_content = []\<rparr>"

definition later_env :: env where
  "later_env = example_env\<lparr>env_utcnow := 9000\<rparr>"

section \<open>The normalisation as the specification words it\<close>

text \<open>
  Section 4.4 of the specification describes the normalisation of a label as: trim
  whitespace, collapse internal whitespace to a single separator, lower-case.
  \<open>spec_normalize\<close> follows these words, with the separator as a parameter; it is
  compared below with what \<open>save_tags\<close> and \<open>save_fiction_type\<close> compute. The flag of
  \<open>collapse_whitespace\<close> says that the previous character was whitespace.
\<close>

fun collapse_whitespace :: "char \<Rightarrow> bool \<Rightarrow> string \<Rightarrow> string" where
  "collapse_whitespace sep prev [] = []"
| "collapse_whitespace sep prev (c # cs) =
     (if isspace c
      then (if prev then collapse_whitespace sep True cs
            else sep # collapse_whitespace sep True cs)
      else c # collapse_whitespace sep False cs)"

definition spec_normalize :: "char \<Rightarrow> string \<Rightarrow> string" where
  "spec_normalize sep s = lower (collapse_whitespace sep False (strip s))"

section \<open>Constraints of the reaction table\<close>

text \<open>
  The primary key of \<open>Reaction\<close> and its \<open>UniqueConstraint('user_id',
  'recommendation_id', name='user_recommendation_uc')\<close>, as predicates on the tables.
\<close>

definition reaction_primary_key :: "database \<Rightarrow> bool" where
  "reaction_primary_key s = distinct (map rea_id (tbl_reaction s))"

definition user_recommendation_uc :: "database \<Rightarrow> bool" where
  "user_recommendation_uc s =
     distinct (map (\<lambda>x. (rea_user_id x, rea_recommendation_id x)) (tbl_reaction s))"

definition reaction_constraints :: "database \<Rightarrow> bool" where
  "reaction_constraints s = (reaction_primary_key s \<and> user_recommendation_uc s)"

section \<open>The assignments of \<open>update_recommendation\<close>\<close>

text \<open>
  The statements of \<open>update_recommendation\<close> between its three checks and its commit, as
  functions of the row found and the request body: the row after the assignments to
  \<open>title\<close>, \<open>short_description\<close>, \<open>opinion\<close> and \<open>updated\<close>, and the fiction type and
  the tags the handler assigns, if it assigns any.
\<close>

definition assigned_fields :: "env \<Rightarrow> Recommendation \<Rightarrow> RecommendationUpdate \<Rightarrow> Recommendation" where
  "assigned_fields e r d =
     r\<lparr>rec_title :=
         (if truthy (get_field (ru_title d)) then the (get_field (ru_title d))
          else rec_title r),
       rec_short_description :=
         (if truthy (get_field (ru_short_description d))
          then the (get_field (ru_short_description d)) else rec_short_description r),
       rec_opinion :=
         (if truthy (get_field (ru_opinion d)) then the (get_field (ru_opinion d))
          else rec_opinion r),
       rec_updated := Some (env_utcnow e)\<rparr>"

definition assigned_fiction_type :: "database \<Rightarrow> RecommendationUpdate \<Rightarrow> FictionType option" where
  "assigned_fiction_type s d =
     (if truthy (get_field (ru_fiction_type d))
      then Some (save_fiction_type s (the (get_field (ru_fiction_type d)))) else None)"

definition assigned_tags :: "database \<Rightarrow> RecommendationUpdate \<Rightarrow> Tag list option" where
  "assigned_tags s d =
     (if truthy (get_field (ru_tags d))
      then Some (save_tags s (the (get_field (ru_tags d)))) else None)"

section \<open>One pass of the loop of \<open>save_tags\<close>\<close>

text \<open>
  What the body of the loop of \<open>save_tags\<close> appends for one label: the first row of the
  tag table with the normalised name, or a new object without primary key.
\<close>

definition resolve_tag :: "database \<Rightarrow> string \<Rightarrow> Tag" where
  "resolve_tag s raw =
     (let name = lower (replace_char CHR '' '' CHR ''-'' (strip raw))
      in case find (\<lambda>t. tag_name t = name) (tbl_tag s) of
           Some t \<Rightarrow> t | None \<Rightarrow> \<lparr>tag_id = None, tag_name = name\<rparr>)"


section \<open>Properties\<close>

lemmas example_defs =
  alice_def bob_def example_env_def example_recommendation_def example_comment_def
  example_reaction_def example_db_def example_update_def duplicate_labels_def one_label_def
  example_db_after_winner_def empty_title_update_def empty_content_def later_env_def

lemmas lookup_defs =
  sqlite_integer_def get_recommendation_by_id_def get_comment_by_id_and_recommendation_id_def
  get_reaction_by_id_and_recommendation_id_def get_reaction_by_recommendation_id_and_user_id_def


subsection \<open>What the lookups return\<close>

lemma find_satisfies: "find P xs = Some x \<Longrightarrow> P x"
  by (auto simp: find_Some_iff)

lemma find_holds: "find P xs = Some x \<Longrightarrow> P x \<and> x \<in> set xs"
  by (auto simp: find_Some_iff)

lemma get_recommendation_by_id_found:
  "get_recommendation_by_id s rid = Inr (Some r) \<Longrightarrow>
     find (\<lambda>r. rec_id r = Some rid) (tbl_recommendation s) = Some r \<and> sqlite_integer rid"
  by (simp add: get_recommendation_by_id_def split: if_splits)

lemma get_comment_found:
  "get_comment_by_id_and_recommendation_id s rid cid = Inr (Some c) \<Longrightarrow>
     find (\<lambda>c. com_recommendation_id c = rid \<and> com_id c = Some cid) (tbl_comment s) = Some c \<and>
     sqlite_integer rid \<and> sqlite_integer cid"
  by (simp add: get_comment_by_id_and_recommendation_id_def split: if_splits)

lemma get_reaction_found:
  "get_reaction_by_id_and_recommendation_id s rid xid = Inr (Some x) \<Longrightarrow>
     find (\<lambda>x. rea_recommendation_id x = rid \<and> rea_id x = Some xid) (tbl_reaction s) = Some x \<and>
     sqlite_integer rid \<and> sqlite_integer xid"
  by (simp add: get_reaction_by_id_and_recommendation_id_def split: if_splits)

lemma lookup_error:
  "get_recommendation_by_id s rid = Inl err \<Longrightarrow> err = OverflowError"
  "get_comment_by_id_and_recommendation_id s rid cid = Inl err \<Longrightarrow> err = OverflowError"
  "get_reaction_by_id_and_recommendation_id s rid xid = Inl err \<Longrightarrow> err = OverflowError"
  by (simp_all add: get_recommendation_by_id_def get_comment_by_id_and_recommendation_id_def
        get_reaction_by_id_and_recommendation_id_def split: if_splits)

lemma lookup_results:
  "get_recommendation_by_id s rid = Inl OverflowError \<or>
   get_recommendation_by_id s rid = Inr None \<or>
   (\<exists>r. get_recommendation_by_id s rid = Inr (Some r))"
  "get_comment_by_id_and_recommendation_id s rid cid = Inl OverflowError \<or>
   get_comment_by_id_and_recommendation_id s rid cid = Inr None \<or>
   (\<exists>c. get_comment_by_id_and_recommendation_id s rid cid = Inr (Some c))"
  "get_reaction_by_id_and_recommendation_id s rid xid = Inl OverflowError \<or>
   get_reaction_by_id_and_recommendation_id s rid xid = Inr None \<or>
   (\<exists>x. get_reaction_by_id_and_recommendation_id s rid xid = Inr (Some x))"
  by (auto simp: get_recommendation_by_id_def get_comment_by_id_and_recommendation_id_def
        get_reaction_by_id_and_recommendation_id_def)

lemma lookup_absent:
  "sqlite_integer rid \<Longrightarrow> \<forall>r \<in> set (tbl_recommendation s). rec_id r \<noteq> Some rid \<Longrightarrow>
     get_recommendation_by_id s rid = Inr None"
  "sqlite_integer rid \<Longrightarrow> sqlite_integer cid \<Longrightarrow>
   \<forall>c \<in> set (tbl_comment s). \<not> (com_recommendation_id c = rid \<and> com_id c = Some cid) \<Longrightarrow>
     get_comment_by_id_and_recommendation_id s rid cid = Inr None"
  "sqlite_integer rid \<Longrightarrow> sqlite_integer xid \<Longrightarrow>
   \<forall>x \<in> set (tbl_reaction s). \<not> (rea_recommendation_id x = rid \<and> rea_id x = Some xid) \<Longrightarrow>
     get_reaction_by_id_and_recommendation_id s rid xid = Inr None"
  by (simp_all add: get_recommendation_by_id_def get_comment_by_id_and_recommendation_id_def
        get_reaction_by_id_and_recommendation_id_def find_None_iff)

subsection \<open>What a failed commit raises\<close>

lemma flush_fiction_type_error: "flush_fiction_type table f = Inl err \<Longrightarrow> err = IntegrityError"
  by (auto simp: flush_fiction_type_def Let_def split: option.splits if_splits)

lemma flush_tags_error: "flush_tags table ts = Inl err \<Longrightarrow> err = IntegrityError"
  by (induction ts arbitrary: table) (auto simp: Let_def split: option.splits if_splits sum.splits)

lemma insert_links_error: "insert_links table rows = Inl err \<Longrightarrow> err = IntegrityError"
  by (auto simp: insert_links_def split: if_splits)

lemma replace_tags_error: "replace_tags table links rid ts = Inl err \<Longrightarrow> err = IntegrityError"
  unfolding replace_tags_def Let_def
  by (simp split: sum.splits prod.splits add: flush_tags_error insert_links_error)

lemma commit_recommendation_update_error:
  assumes "commit_recommendation_update s rid r f ts = Inl err"
  shows "err = IntegrityError"
proof -
  have a: "(case f of None \<Rightarrow> Inr (tbl_fiction_type s, rec_fiction_type_id r)
            | Some f \<Rightarrow> flush_fiction_type (tbl_fiction_type s) f) = Inl x \<Longrightarrow> x = IntegrityError" for x
    by (cases f) (simp_all add: flush_fiction_type_error)
  have b: "(case ts of None \<Rightarrow> Inr (tbl_tag s, tbl_tagged_recommendations s)
            | Some ts \<Rightarrow> replace_tags (tbl_tag s) (tbl_tagged_recommendations s) rid ts) = Inl x
           \<Longrightarrow> x = IntegrityError" for x
    by (cases ts) (simp_all add: replace_tags_error)
  from assms show ?thesis
    unfolding commit_recommendation_update_def Let_def
    by (simp split: sum.splits prod.splits add: a b)
qed


lemma raised_commit_not_403:
  assumes "\<And>err. x = Inl err \<Longrightarrow> err = IntegrityError"
  shows "raised (case x of Inl err \<Rightarrow> (Inl err, s) | Inr (s', r') \<Rightarrow> (Inr (f s' r'), s'))
           \<noteq> Some 403"
  using assms by (cases x) (auto simp: raised_def)

lemma update_recommendation_owner:
  assumes "get_recommendation_by_id s rid = Inr (Some r)" "Some (rec_user_id r) = usr_id u"
  shows "raised (update_recommendation e s rid u d) \<noteq> Some 403"
proof (cases "no_data d")
  case True
  with assms show ?thesis
    by (simp add: update_recommendation_def raised_def HTTP_400_BAD_REQUEST_def)
next
  case False
  with assms show ?thesis
    unfolding update_recommendation_def Let_def
    apply (simp split del: if_split)
    apply (rule raised_commit_not_403)
    apply (erule commit_recommendation_update_error)
    done
qed



lemma commit_case_Inr:
  assumes "(case x of Inl err \<Rightarrow> (Inl err, s) | Inr (s', r') \<Rightarrow> (Inr (f s' r'), s')) =
           (Inr resp, s2)"
  shows "\<exists>r'. x = Inr (s2, r') \<and> resp = f s2 r'"
  using assms by (cases x) auto

subsection \<open>The ownership guard\<close>

text \<open>
  C1. For update and delete of a recommendation, a comment and a reaction: when the
  target exists and the acting user's id differs from the row's \<open>user_id\<close>, the handler
  raises 403 with the permission detail and the tables are unchanged; when the ids are
  equal the handler does not raise 403. The test is the same comparison of the two ids
  in all six handlers.
\<close>

theorem ownership_guard:
  "(get_recommendation_by_id s rid = Inr (Some r) \<longrightarrow>
      (Some (rec_user_id r) \<noteq> usr_id u \<longrightarrow>
         update_recommendation e s rid u d =
           (Inl (HTTPException 403 (NoPermission Update KRecommendation rid)), s) \<and>
         delete_recommendation e s rid u =
           (Inl (HTTPException 403 (NoPermission Delete KRecommendation rid)), s)) \<and>
      (Some (rec_user_id r) = usr_id u \<longrightarrow>
         raised (update_recommendation e s rid u d) \<noteq> Some 403 \<and>
         raised (delete_recommendation e s rid u) \<noteq> Some 403)) \<and>
   (get_recommendation_by_id s rid = Inr (Some r) \<and>
    get_comment_by_id_and_recommendation_id s rid cid = Inr (Some c) \<longrightarrow>
      (Some (com_user_id c) \<noteq> usr_id u \<longrightarrow>
         update_comment e s rid cid cd u =
           (Inl (HTTPException 403 (NoPermission Update KComment cid)), s) \<and>
         delete_comment e s rid cid u =
           (Inl (HTTPException 403 (NoPermission Delete KComment cid)), s)) \<and>
      (Some (com_user_id c) = usr_id u \<longrightarrow>
         raised (update_comment e s rid cid cd u) \<noteq> Some 403 \<and>
         raised (delete_comment e s rid cid u) \<noteq> Some 403)) \<and>
   (get_recommendation_by_id s rid = Inr (Some r) \<and>
    get_reaction_by_id_and_recommendation_id s rid xid = Inr (Some x) \<longrightarrow>
      (Some (rea_user_id x) \<noteq> usr_id u \<longrightarrow>
         update_reaction e s rid xid xd u =
           (Inl (HTTPException 403 (NoPermission Update KReaction xid)), s) \<and>
         delete_reaction e s rid xid u =
           (Inl (HTTPException 403 (NoPermission Delete KReaction xid)), s)) \<and>
      (Some (rea_user_id x) = usr_id u \<longrightarrow>
         raised (update_reaction e s rid xid xd u) \<noteq> Some 403 \<and>
         raised (delete_reaction e s rid xid u) \<noteq> Some 403))"
proof -
  have rec_forbidden:
    "update_recommendation e s rid u d =
       (Inl (HTTPException 403 (NoPermission Update KRecommendation rid)), s) \<and>
     delete_recommendation e s rid u =
       (Inl (HTTPException 403 (NoPermission Delete KRecommendation rid)), s)"
    if "get_recommendation_by_id s rid = Inr (Some r)" "Some (rec_user_id r) \<noteq> usr_id u"
    using that
    by (simp add: update_recommendation_def delete_recommendation_def HTTP_403_FORBIDDEN_def)
  have rec_owner:
    "raised (update_recommendation e s rid u d) \<noteq> Some 403 \<and>
     raised (delete_recommendation e s rid u) \<noteq> Some 403"
    if "get_recommendation_by_id s rid = Inr (Some r)" "Some (rec_user_id r) = usr_id u"
    using that update_recommendation_owner [OF that]
    by (simp add: delete_recommendation_def raised_def)
  have com_forbidden:
    "update_comment e s rid cid cd u =
       (Inl (HTTPException 403 (NoPermission Update KComment cid)), s) \<and>
     delete_comment e s rid cid u =
       (Inl (HTTPException 403 (NoPermission Delete KComment cid)), s)"
    if "get_recommendation_by_id s rid = Inr (Some r)"
       "get_comment_by_id_and_recommendation_id s rid cid = Inr (Some c)"
       "Some (com_user_id c) \<noteq> usr_id u"
    using that by (simp add: update_comment_def delete_comment_def HTTP_403_FORBIDDEN_def)
  have com_owner:
    "raised (update_comment e s rid cid cd u) \<noteq> Some 403 \<and>
     raised (delete_comment e s rid cid u) \<noteq> Some 403"
    if "get_recommendation_by_id s rid = Inr (Some r)"
       "get_comment_by_id_and_recommendation_id s rid cid = Inr (Some c)"
       "Some (com_user_id c) = usr_id u"
    using that by (simp add: update_comment_def delete_comment_def raised_def Let_def)
  have rea_forbidden:
    "update_reaction e s rid xid xd u =
       (Inl (HTTPException 403 (NoPermission Update KReaction xid)), s) \<and>
     delete_reaction e s rid xid u =
       (Inl (HTTPException 403 (NoPermission Delete KReaction xid)), s)"
    if "get_recommendation_by_id s rid = Inr (Some r)"
       "get_reaction_by_id_and_recommendation_id s rid xid = Inr (Some x)"
       "Some (rea_user_id x) \<noteq> usr_id u"
    using that by (simp add: update_reaction_def delete_reaction_def HTTP_403_FORBIDDEN_def)
  have rea_owner:
    "raised (update_reaction e s rid xid xd u) \<noteq> Some 403 \<and>
     raised (delete_reaction e s rid xid u) \<noteq> Some 403"
    if "get_recommendation_by_id s rid = Inr (Some r)"
       "get_reaction_by_id_and_recommendation_id s rid xid = Inr (Some x)"
       "Some (rea_user_id x) = usr_id u"
    using that by (simp add: update_reaction_def delete_reaction_def raised_def Let_def)
  show ?thesis
    using rec_forbidden rec_owner com_forbidden com_owner rea_forbidden rea_owner by blast
qed



text \<open>The guard at the example database: user 2 is refused, user 1 (the owner) is not.\<close>

theorem ownership_guard_witness:
  "get_recommendation_by_id example_db 1 = Inr (Some example_recommendation) \<and>
   get_comment_by_id_and_recommendation_id example_db 1 1 = Inr (Some example_comment) \<and>
   get_reaction_by_id_and_recommendation_id example_db 1 1 = Inr (Some example_reaction) \<and>
   Some (rec_user_id example_recommendation) \<noteq> usr_id bob \<and>
   Some (rec_user_id example_recommendation) = usr_id alice \<and>
   update_recommendation example_env example_db 1 bob example_update =
     (Inl (HTTPException 403 (NoPermission Update KRecommendation 1)), example_db) \<and>
   delete_comment example_env example_db 1 1 bob =
     (Inl (HTTPException 403 (NoPermission Delete KComment 1)), example_db) \<and>
   delete_reaction example_env example_db 1 1 bob =
     (Inl (HTTPException 403 (NoPermission Delete KReaction 1)), example_db) \<and>
   raised (update_recommendation example_env example_db 1 alice example_update) \<noteq> Some 403 \<and>
   raised (delete_comment example_env example_db 1 1 alice) \<noteq> Some 403 \<and>
   raised (delete_reaction example_env example_db 1 1 alice) \<noteq> Some 403"
proof -
  have h: "get_recommendation_by_id example_db 1 = Inr (Some example_recommendation)"
    "get_comment_by_id_and_recommendation_id example_db 1 1 = Inr (Some example_comment)"
    "get_reaction_by_id_and_recommendation_id example_db 1 1 = Inr (Some example_reaction)"
    "Some (rec_user_id example_recommendation) \<noteq> usr_id bob"
    "Some (rec_user_id example_recommendation) = usr_id alice"
    "Some (com_user_id example_comment) \<noteq> usr_id bob"
    "Some (com_user_id example_comment) = usr_id alice"
    "Some (rea_user_id example_reaction) \<noteq> usr_id bob"
    "Some (rea_user_id example_reaction) = usr_id alice"
    by (simp_all add: lookup_defs example_defs)
  show ?thesis
    using h
      ownership_guard [of example_db 1 example_recommendation bob example_env example_update
        1 example_comment "\<lparr>cu_content = ''x''\<rparr>" 1 example_reaction
        "\<lparr>rau_is_positive = False\<rparr>"]
      ownership_guard [of example_db 1 example_recommendation alice example_env example_update
        1 example_comment "\<lparr>cu_content = ''x''\<rparr>" 1 example_reaction
        "\<lparr>rau_is_positive = False\<rparr>"]
    by simp
qed


lemma lookup_raises_not_403:
  "get_recommendation_by_id s rid = Inl OverflowError \<Longrightarrow>
     raised (update_recommendation e s rid u d) = Some 500 \<and>
     raised (delete_recommendation e s rid u) = Some 500 \<and>
     raised (update_comment e s rid cid cd u) = Some 500 \<and>
     raised (delete_comment e s rid cid u) = Some 500 \<and>
     raised (update_reaction e s rid xid xd u) = Some 500 \<and>
     raised (delete_reaction e s rid xid u) = Some 500"
  "get_recommendation_by_id s rid = Inr (Some r) \<Longrightarrow>
   get_comment_by_id_and_recommendation_id s rid cid = Inl OverflowError \<Longrightarrow>
     raised (update_comment e s rid cid cd u) = Some 500 \<and>
     raised (delete_comment e s rid cid u) = Some 500"
  "get_recommendation_by_id s rid = Inr (Some r) \<Longrightarrow>
   get_reaction_by_id_and_recommendation_id s rid xid = Inl OverflowError \<Longrightarrow>
     raised (update_reaction e s rid xid xd u) = Some 500 \<and>
     raised (delete_reaction e s rid xid u) = Some 500"
  by (simp_all add: update_recommendation_def delete_recommendation_def update_comment_def
        delete_comment_def update_reaction_def delete_reaction_def raised_def)

lemma not_found_recommendation:
  assumes "get_recommendation_by_id s rid = Inr None"
  shows "update_recommendation e s rid u d =
        (Inl (HTTPException 404 (RecommendationNotFound rid)), s) \<and>
      delete_recommendation e s rid u =
        (Inl (HTTPException 404 (RecommendationNotFound rid)), s) \<and>
      update_comment e s rid cid cd u =
        (Inl (HTTPException 404 (RecommendationNotFound rid)), s) \<and>
      delete_comment e s rid cid u =
        (Inl (HTTPException 404 (RecommendationNotFound rid)), s) \<and>
      update_reaction e s rid xid xd u =
        (Inl (HTTPException 404 (RecommendationNotFound rid)), s) \<and>
      delete_reaction e s rid xid u =
        (Inl (HTTPException 404 (RecommendationNotFound rid)), s)"
  using assms
  by (simp add: update_recommendation_def delete_recommendation_def update_comment_def
        delete_comment_def update_reaction_def delete_reaction_def HTTP_404_NOT_FOUND_def)

lemma not_found_comment:
  assumes "get_recommendation_by_id s rid = Inr (Some r)"
    "get_comment_by_id_and_recommendation_id s rid cid = Inr None"
  shows "update_comment e s rid cid cd u =
        (Inl (HTTPException 404 (CommentNotFound cid rid)), s) \<and>
      delete_comment e s rid cid u =
        (Inl (HTTPException 404 (CommentNotFound cid rid)), s)"
  using assms by (simp add: update_comment_def delete_comment_def HTTP_404_NOT_FOUND_def)

lemma not_found_reaction:
  assumes "get_recommendation_by_id s rid = Inr (Some r)"
    "get_reaction_by_id_and_recommendation_id s rid xid = Inr None"
  shows "update_reaction e s rid xid xd u =
        (Inl (HTTPException 404 (ReactionNotFound xid rid)), s) \<and>
      delete_reaction e s rid xid u =
        (Inl (HTTPException 404 (ReactionNotFound xid rid)), s)"
  using assms by (simp add: update_reaction_def delete_reaction_def HTTP_404_NOT_FOUND_def)

lemma forbidden_recommendation_found:
  assumes "raised (update_recommendation e s rid u d) = Some 403 \<or>
           raised (delete_recommendation e s rid u) = Some 403"
  shows "\<exists>r. get_recommendation_by_id s rid = Inr (Some r)"
proof (rule ccontr)
  assume "\<not> (\<exists>r. get_recommendation_by_id s rid = Inr (Some r))"
  with lookup_results(1) [of s rid]
  consider "get_recommendation_by_id s rid = Inl OverflowError"
    | "get_recommendation_by_id s rid = Inr None" by blast
  then show False
  proof cases
    case 1
    from lookup_raises_not_403(1) [OF 1, of e u d] assms show False by auto
  next
    case 2
    from not_found_recommendation [OF 2, of e u d] assms show False
      by (auto simp: raised_def)
  qed
qed

lemma forbidden_comment_found:
  assumes "raised (update_comment e s rid cid cd u) = Some 403 \<or>
           raised (delete_comment e s rid cid u) = Some 403"
  shows "(\<exists>r. get_recommendation_by_id s rid = Inr (Some r)) \<and>
         (\<exists>c. get_comment_by_id_and_recommendation_id s rid cid = Inr (Some c))"
proof -
  have r: "\<exists>r. get_recommendation_by_id s rid = Inr (Some r)"
  proof (rule ccontr)
    assume "\<not> (\<exists>r. get_recommendation_by_id s rid = Inr (Some r))"
    with lookup_results(1) [of s rid]
    consider "get_recommendation_by_id s rid = Inl OverflowError"
      | "get_recommendation_by_id s rid = Inr None" by blast
    then show False
    proof cases
      case 1
      from lookup_raises_not_403(1) [OF 1, of _ _ _ cid cd] assms show False by auto
    next
      case 2
      from not_found_recommendation [OF 2, of _ _ _ cid cd] assms show False
        by (auto simp: raised_def)
    qed
  qed
  then obtain r where r': "get_recommendation_by_id s rid = Inr (Some r)" by blast
  have "\<exists>c. get_comment_by_id_and_recommendation_id s rid cid = Inr (Some c)"
  proof (rule ccontr)
    assume "\<not> (\<exists>c. get_comment_by_id_and_recommendation_id s rid cid = Inr (Some c))"
    with lookup_results(2) [of s rid cid]
    consider "get_comment_by_id_and_recommendation_id s rid cid = Inl OverflowError"
      | "get_comment_by_id_and_recommendation_id s rid cid = Inr None" by blast
    then show False
    proof cases
      case 1
      from lookup_raises_not_403(2) [OF r' 1] assms show False by auto
    next
      case 2
      from not_found_comment [OF r' 2] assms show False by (auto simp: raised_def)
    qed
  qed
  with r show ?thesis by blast
qed

lemma forbidden_reaction_found:
  assumes "raised (update_reaction e s rid xid xd u) = Some 403 \<or>
           raised (delete_reaction e s rid xid u) = Some 403"
  shows "(\<exists>r. get_recommendation_by_id s rid = Inr (Some r)) \<and>
         (\<exists>x. get_reaction_by_id_and_recommendation_id s rid xid = Inr (Some x))"
proof -
  have r: "\<exists>r. get_recommendation_by_id s rid = Inr (Some r)"
  proof (rule ccontr)
    assume "\<not> (\<exists>r. get_recommendation_by_id s rid = Inr (Some r))"
    with lookup_results(1) [of s rid]
    consider "get_recommendation_by_id s rid = Inl OverflowError"
      | "get_recommendation_by_id s rid = Inr None" by blast
    then show False
    proof cases
      case 1
      from lookup_raises_not_403(1) [OF 1, of _ _ _ _ _ xid xd] assms show False by auto
    next
      case 2
      from not_found_recommendation [OF 2, of _ _ _ _ _ xid xd] assms show False
        by (auto simp: raised_def)
    qed
  qed
  then obtain r where r': "get_recommendation_by_id s rid = Inr (Some r)" by blast
  have "\<exists>x. get_reaction_by_id_and_recommendation_id s rid xid = Inr (Some x)"
  proof (rule ccontr)
    assume "\<not> (\<exists>x. get_reaction_by_id_and_recommendation_id s rid xid = Inr (Some x))"
    with lookup_results(3) [of s rid xid]
    consider "get_reaction_by_id_and_recommendation_id s rid xid = Inl OverflowError"
      | "get_reaction_by_id_and_recommendation_id s rid xid = Inr None" by blast
    then show False
    proof cases
      case 1
      from lookup_raises_not_403(3) [OF r' 1] assms show False by auto
    next
      case 2
      from not_found_reaction [OF r' 2] assms show False by (auto simp: raised_def)
    qed
  qed
  with r show ?thesis by blast
qed

text \<open>
  C2, as amended. For update and delete of a recommendation, a comment and a reaction,
  and every acting user: when no row with the identifiers of the path exists, the
  handler never raises 403, whatever the identifiers; when the identifiers are
  integers the engine binds (signed 64-bit on the engine of the tests) it raises 404
  and leaves the tables unchanged. A 403 outcome implies that the lookups found the
  target.
\<close>

theorem existence_precedes_ownership:
  "(sqlite_integer rid \<and> (\<forall>r \<in> set (tbl_recommendation s). rec_id r \<noteq> Some rid) \<longrightarrow>
      update_recommendation e s rid u d =
        (Inl (HTTPException 404 (RecommendationNotFound rid)), s) \<and>
      delete_recommendation e s rid u =
        (Inl (HTTPException 404 (RecommendationNotFound rid)), s) \<and>
      update_comment e s rid cid cd u =
        (Inl (HTTPException 404 (RecommendationNotFound rid)), s) \<and>
      delete_comment e s rid cid u =
        (Inl (HTTPException 404 (RecommendationNotFound rid)), s) \<and>
      update_reaction e s rid xid xd u =
        (Inl (HTTPException 404 (RecommendationNotFound rid)), s) \<and>
      delete_reaction e s rid xid u =
        (Inl (HTTPException 404 (RecommendationNotFound rid)), s)) \<and>
   (get_recommendation_by_id s rid = Inr (Some r) \<and> sqlite_integer cid \<and>
    (\<forall>c \<in> set (tbl_comment s). \<not> (com_recommendation_id c = rid \<and> com_id c = Some cid)) \<longrightarrow>
      update_comment e s rid cid cd u =
        (Inl (HTTPException 404 (CommentNotFound cid rid)), s) \<and>
      delete_comment e s rid cid u =
        (Inl (HTTPException 404 (CommentNotFound cid rid)), s)) \<and>
   (get_recommendation_by_id s rid = Inr (Some r) \<and> sqlite_integer xid \<and>
    (\<forall>x \<in> set (tbl_reaction s). \<not> (rea_recommendation_id x = rid \<and> rea_id x = Some xid)) \<longrightarrow>
      update_reaction e s rid xid xd u =
        (Inl (HTTPException 404 (ReactionNotFound xid rid)), s) \<and>
      delete_reaction e s rid xid u =
        (Inl (HTTPException 404 (ReactionNotFound xid rid)), s)) \<and>
   ((\<forall>r \<in> set (tbl_recommendation s). rec_id r \<noteq> Some rid) \<longrightarrow>
      raised (update_recommendation e s rid u d) \<noteq> Some 403 \<and>
      raised (delete_recommendation e s rid u) \<noteq> Some 403 \<and>
      raised (update_comment e s rid cid cd u) \<noteq> Some 403 \<and>
      raised (delete_comment e s rid cid u) \<noteq> Some 403 \<and>
      raised (update_reaction e s rid xid xd u) \<noteq> Some 403 \<and>
      raised (delete_reaction e s rid xid u) \<noteq> Some 403) \<and>
   ((\<forall>c \<in> set (tbl_comment s). \<not> (com_recommendation_id c = rid \<and> com_id c = Some cid)) \<longrightarrow>
      raised (update_comment e s rid cid cd u) \<noteq> Some 403 \<and>
      raised (delete_comment e s rid cid u) \<noteq> Some 403) \<and>
   ((\<forall>x \<in> set (tbl_reaction s). \<not> (rea_recommendation_id x = rid \<and> rea_id x = Some xid)) \<longrightarrow>
      raised (update_reaction e s rid xid xd u) \<noteq> Some 403 \<and>
      raised (delete_reaction e s rid xid u) \<noteq> Some 403) \<and>
   (raised (update_recommendation e s rid u d) = Some 403 \<or>
    raised (delete_recommendation e s rid u) = Some 403 \<longrightarrow>
      (\<exists>r. get_recommendation_by_id s rid = Inr (Some r))) \<and>
   (raised (update_comment e s rid cid cd u) = Some 403 \<or>
    raised (delete_comment e s rid cid u) = Some 403 \<longrightarrow>
      (\<exists>r. get_recommendation_by_id s rid = Inr (Some r)) \<and>
      (\<exists>c. get_comment_by_id_and_recommendation_id s rid cid = Inr (Some c))) \<and>
   (raised (update_reaction e s rid xid xd u) = Some 403 \<or>
    raised (delete_reaction e s rid xid u) = Some 403 \<longrightarrow>
      (\<exists>r. get_recommendation_by_id s rid = Inr (Some r)) \<and>
      (\<exists>x. get_reaction_by_id_and_recommendation_id s rid xid = Inr (Some x)))"
proof -
  have no_rec: "\<not> (\<exists>r. get_recommendation_by_id s rid = Inr (Some r))"
    if "\<forall>r \<in> set (tbl_recommendation s). rec_id r \<noteq> Some rid"
  proof
    assume "\<exists>r. get_recommendation_by_id s rid = Inr (Some r)"
    then obtain r where "get_recommendation_by_id s rid = Inr (Some r)" by blast
    from get_recommendation_by_id_found [OF this]
    have "rec_id r = Some rid \<and> r \<in> set (tbl_recommendation s)"
      using find_holds [of "\<lambda>r. rec_id r = Some rid" "tbl_recommendation s" r] by blast
    with that show False by blast
  qed
  have no_com: "\<not> (\<exists>c. get_comment_by_id_and_recommendation_id s rid cid = Inr (Some c))"
    if "\<forall>c \<in> set (tbl_comment s). \<not> (com_recommendation_id c = rid \<and> com_id c = Some cid)"
  proof
    assume "\<exists>c. get_comment_by_id_and_recommendation_id s rid cid = Inr (Some c)"
    then obtain c where "get_comment_by_id_and_recommendation_id s rid cid = Inr (Some c)"
      by blast
    from get_comment_found [OF this]
    have "(com_recommendation_id c = rid \<and> com_id c = Some cid) \<and> c \<in> set (tbl_comment s)"
      using find_holds [of "\<lambda>c. com_recommendation_id c = rid \<and> com_id c = Some cid"
          "tbl_comment s" c] by blast
    with that show False by blast
  qed
  have no_rea: "\<not> (\<exists>x. get_reaction_by_id_and_recommendation_id s rid xid = Inr (Some x))"
    if "\<forall>x \<in> set (tbl_reaction s). \<not> (rea_recommendation_id x = rid \<and> rea_id x = Some xid)"
  proof
    assume "\<exists>x. get_reaction_by_id_and_recommendation_id s rid xid = Inr (Some x)"
    then obtain x where "get_reaction_by_id_and_recommendation_id s rid xid = Inr (Some x)"
      by blast
    from get_reaction_found [OF this]
    have "(rea_recommendation_id x = rid \<and> rea_id x = Some xid) \<and> x \<in> set (tbl_reaction s)"
      using find_holds [of "\<lambda>x. rea_recommendation_id x = rid \<and> rea_id x = Some xid"
          "tbl_reaction s" x] by blast
    with that show False by blast
  qed
  have p1: "update_recommendation e s rid u d =
        (Inl (HTTPException 404 (RecommendationNotFound rid)), s) \<and>
      delete_recommendation e s rid u =
        (Inl (HTTPException 404 (RecommendationNotFound rid)), s) \<and>
      update_comment e s rid cid cd u =
        (Inl (HTTPException 404 (RecommendationNotFound rid)), s) \<and>
      delete_comment e s rid cid u =
        (Inl (HTTPException 404 (RecommendationNotFound rid)), s) \<and>
      update_reaction e s rid xid xd u =
        (Inl (HTTPException 404 (RecommendationNotFound rid)), s) \<and>
      delete_reaction e s rid xid u =
        (Inl (HTTPException 404 (RecommendationNotFound rid)), s)"
    if "sqlite_integer rid \<and> (\<forall>r \<in> set (tbl_recommendation s). rec_id r \<noteq> Some rid)"
    using that by (intro not_found_recommendation lookup_absent(1)) simp_all
  have p2: "update_comment e s rid cid cd u =
        (Inl (HTTPException 404 (CommentNotFound cid rid)), s) \<and>
      delete_comment e s rid cid u =
        (Inl (HTTPException 404 (CommentNotFound cid rid)), s)"
    if "get_recommendation_by_id s rid = Inr (Some r) \<and> sqlite_integer cid \<and>
    (\<forall>c \<in> set (tbl_comment s). \<not> (com_recommendation_id c = rid \<and> com_id c = Some cid))"
  proof -
    from that get_recommendation_by_id_found have "sqlite_integer rid" by blast
    with that have "get_comment_by_id_and_recommendation_id s rid cid = Inr None"
      by (intro lookup_absent(2)) simp_all
    with that show ?thesis using not_found_comment by blast
  qed
  have p3: "update_reaction e s rid xid xd u =
        (Inl (HTTPException 404 (ReactionNotFound xid rid)), s) \<and>
      delete_reaction e s rid xid u =
        (Inl (HTTPException 404 (ReactionNotFound xid rid)), s)"
    if "get_recommendation_by_id s rid = Inr (Some r) \<and> sqlite_integer xid \<and>
    (\<forall>x \<in> set (tbl_reaction s). \<not> (rea_recommendation_id x = rid \<and> rea_id x = Some xid))"
  proof -
    from that get_recommendation_by_id_found have "sqlite_integer rid" by blast
    with that have "get_reaction_by_id_and_recommendation_id s rid xid = Inr None"
      by (intro lookup_absent(3)) simp_all
    with that show ?thesis using not_found_reaction by blast
  qed
  note f1 = forbidden_recommendation_found [of e s rid u d]
  note f2 = forbidden_comment_found [of e s rid cid cd u]
  note f3 = forbidden_reaction_found [of e s rid xid xd u]
  have p4: "raised (update_recommendation e s rid u d) \<noteq> Some 403 \<and>
      raised (delete_recommendation e s rid u) \<noteq> Some 403 \<and>
      raised (update_comment e s rid cid cd u) \<noteq> Some 403 \<and>
      raised (delete_comment e s rid cid u) \<noteq> Some 403 \<and>
      raised (update_reaction e s rid xid xd u) \<noteq> Some 403 \<and>
      raised (delete_reaction e s rid xid u) \<noteq> Some 403"
    if "\<forall>r \<in> set (tbl_recommendation s). rec_id r \<noteq> Some rid"
    using no_rec [OF that] f1 f2 f3 by blast
  have p5: "raised (update_comment e s rid cid cd u) \<noteq> Some 403 \<and>
      raised (delete_comment e s rid cid u) \<noteq> Some 403"
    if "\<forall>c \<in> set (tbl_comment s). \<not> (com_recommendation_id c = rid \<and> com_id c = Some cid)"
    using no_com [OF that] f2 by blast
  have p6: "raised (update_reaction e s rid xid xd u) \<noteq> Some 403 \<and>
      raised (delete_reaction e s rid xid u) \<noteq> Some 403"
    if "\<forall>x \<in> set (tbl_reaction s). \<not> (rea_recommendation_id x = rid \<and> rea_id x = Some xid)"
    using no_rea [OF that] f3 by blast
  show ?thesis
    apply (intro conjI impI)
    subgoal using p1 by blast
    subgoal using p1 by blast
    subgoal using p1 by blast
    subgoal using p1 by blast
    subgoal using p1 by blast
    subgoal using p1 by blast
    subgoal using p2 by blast
    subgoal using p2 by blast
    subgoal using p3 by blast
    subgoal using p3 by blast
    subgoal using p4 by blast
    subgoal using p4 by blast
    subgoal using p4 by blast
    subgoal using p4 by blast
    subgoal using p4 by blast
    subgoal using p4 by blast
    subgoal using p5 by blast
    subgoal using p5 by blast
    subgoal using p6 by blast
    subgoal using p6 by blast
    subgoal using f1 by blast
    subgoal using f2 by blast
    subgoal using f2 by blast
    subgoal using f3 by blast
    subgoal using f3 by blast
    done
qed

text \<open>
  Absent targets at the example database: identifier 99 and, under recommendation 1,
  comment and reaction 7 give 404; identifier \<open>2 ^ 63\<close>, which no row has, gives no 403.
\<close>

theorem existence_precedes_ownership_witness:
  "sqlite_integer 99 \<and> sqlite_integer 7 \<and>
   get_recommendation_by_id example_db 1 = Inr (Some example_recommendation) \<and>
   update_recommendation example_env example_db 99 bob example_update =
     (Inl (HTTPException 404 (RecommendationNotFound 99)), example_db) \<and>
   delete_reaction example_env example_db 99 1 bob =
     (Inl (HTTPException 404 (RecommendationNotFound 99)), example_db) \<and>
   delete_comment example_env example_db 1 7 bob =
     (Inl (HTTPException 404 (CommentNotFound 7 1)), example_db) \<and>
   delete_reaction example_env example_db 1 7 bob =
     (Inl (HTTPException 404 (ReactionNotFound 7 1)), example_db) \<and>
   raised (delete_recommendation example_env example_db (2 ^ 63) bob) \<noteq> Some 403"
proof -
  have h: "sqlite_integer 99" "sqlite_integer 7"
    "get_recommendation_by_id example_db 1 = Inr (Some example_recommendation)"
    by (simp_all add: lookup_defs example_defs)
  have a1: "\<forall>r \<in> set (tbl_recommendation example_db). rec_id r \<noteq> Some 99"
    and a2: "\<forall>c \<in> set (tbl_comment example_db).
               \<not> (com_recommendation_id c = 1 \<and> com_id c = Some 7)"
    and a3: "\<forall>x \<in> set (tbl_reaction example_db).
               \<not> (rea_recommendation_id x = 1 \<and> rea_id x = Some 7)"
    and a4: "\<forall>r \<in> set (tbl_recommendation example_db). rec_id r \<noteq> Some (2 ^ 63)"
    by (simp_all add: example_defs)
  note a = existence_precedes_ownership [of 99 example_db example_env bob example_update
        1 "\<lparr>cu_content = ''x''\<rparr>" 1 "\<lparr>rau_is_positive = False\<rparr>"]
  note b = existence_precedes_ownership [of 1 example_db example_env bob example_update
        7 "\<lparr>cu_content = ''x''\<rparr>" 7 "\<lparr>rau_is_positive = False\<rparr>" example_recommendation]
  note c = existence_precedes_ownership [of "2 ^ 63" example_db example_env bob example_update
        1 "\<lparr>cu_content = ''x''\<rparr>" 1 "\<lparr>rau_is_positive = False\<rparr>"]
  from a h(1) a1 have 1: "update_recommendation example_env example_db 99 bob example_update =
     (Inl (HTTPException 404 (RecommendationNotFound 99)), example_db)"
     "delete_reaction example_env example_db 99 1 bob =
     (Inl (HTTPException 404 (RecommendationNotFound 99)), example_db)"
    by blast+
  from b h(2,3) a2 a3 have 2: "delete_comment example_env example_db 1 7 bob =
     (Inl (HTTPException 404 (CommentNotFound 7 1)), example_db)"
     "delete_reaction example_env example_db 1 7 bob =
     (Inl (HTTPException 404 (ReactionNotFound 7 1)), example_db)"
    by blast+
  from c a4 have 3: "raised (delete_recommendation example_env example_db (2 ^ 63) bob) \<noteq> Some 403"
    by blast
  show ?thesis
    using h 1 2 3 by blast
qed

text \<open>
  C2 as the specification states it fails: no recommendation has the identifier
  \<open>2 ^ 63\<close>, the lookup of \<open>delete_recommendation\<close> raises \<open>OverflowError\<close> and the
  request ends with status 500, not 404.
\<close>

theorem absent_target_overflow:
  "find (\<lambda>r. rec_id r = Some (2 ^ 63)) (tbl_recommendation example_db) = None \<and>
   delete_recommendation example_env example_db (2 ^ 63) bob = (Inl OverflowError, example_db) \<and>
   raised (delete_recommendation example_env example_db (2 ^ 63) bob) = Some 500 \<and>
   raised (delete_recommendation example_env example_db (2 ^ 63) bob) \<noteq> Some 404"
  by (simp add: delete_recommendation_def raised_def lookup_defs example_defs)

subsection \<open>Labels of one request that normalise to the same name\<close>

text \<open>
  C3. The claim is that labels of one request with the same normalised name collapse
  to one reference. At the request with the labels \<open>Sci-Fy\<close> and \<open> sci-fy \<close>,
  \<open>save_tags\<close> returns two new tag objects named \<open>sci-fy\<close>, the commit violates the
  unique constraint on \<open>Tag.name\<close>, and the request ends with \<open>IntegrityError\<close> and
  creates nothing; when the tag exists, the list holds the existing row twice.
\<close>

theorem duplicate_labels_not_collapsed:
  "save_tags example_db (rc_tags duplicate_labels) =
     [\<lparr>tag_id = None, tag_name = ''sci-fy''\<rparr>, \<lparr>tag_id = None, tag_name = ''sci-fy''\<rparr>] \<and>
   post_recommendation example_env example_db duplicate_labels alice =
     (Inl IntegrityError, example_db) \<and>
   save_tags example_db [''Space'', '' space ''] =
     [\<lparr>tag_id = Some 1, tag_name = ''space''\<rparr>, \<lparr>tag_id = Some 1, tag_name = ''space''\<rparr>]"
  by code_simp


subsection \<open>Lookup or construction of reference data\<close>

lemma save_tags_loop_map:
  "save_tags_loop s tags acc = acc @ map (resolve_tag s) tags"
  by (induction tags arbitrary: acc) (simp_all add: resolve_tag_def Let_def split: option.splits)

lemma find_name:
  "find (\<lambda>t. f t = n) xs = Some t \<Longrightarrow> f t = n \<and> t \<in> set xs"
  by (auto simp: find_Some_iff)

lemma resolve_tag_props:
  "tag_name (resolve_tag s raw) = lower (replace_char CHR '' '' CHR ''-'' (strip raw)) \<and>
   ((\<exists>x \<in> set (tbl_tag s). tag_name x = lower (replace_char CHR '' '' CHR ''-'' (strip raw)))
      \<longrightarrow> resolve_tag s raw \<in> set (tbl_tag s)) \<and>
   ((\<forall>x \<in> set (tbl_tag s). tag_name x \<noteq> lower (replace_char CHR '' '' CHR ''-'' (strip raw)))
      \<longrightarrow> tag_id (resolve_tag s raw) = None)"
  by (auto simp: resolve_tag_def Let_def find_None_iff split: option.splits dest: find_name)


lemma flush_tags_keeps:
  "flush_tags table ts = Inr (table', ids) \<Longrightarrow>
     set table \<subseteq> set table' \<and>
     (\<forall>t \<in> set ts. tag_id t = None \<longrightarrow> (\<exists>x \<in> set table'. tag_name x = tag_name t))"
proof (induction ts arbitrary: table table' ids)
  case Nil
  then show ?case by simp
next
  case (Cons t ts)
  show ?case
  proof (cases "tag_id t")
    case (Some i)
    with Cons.prems obtain ids' where "flush_tags table ts = Inr (table', ids')"
      by (auto split: sum.splits)
    from Cons.IH [OF this] Some show ?thesis by simp
  next
    case None
    define t' where "t' = t\<lparr>tag_id := Some (fresh_id (map tag_id table))\<rparr>"
    from Cons.prems None obtain ids' where
      "flush_tags (table @ [t']) ts = Inr (table', ids')"
      by (auto simp: Let_def t'_def split: if_splits sum.splits)
    from Cons.IH [OF this] have
      sub: "set (table @ [t']) \<subseteq> set table'" and
      rest: "\<forall>t \<in> set ts. tag_id t = None \<longrightarrow> (\<exists>x \<in> set table'. tag_name x = tag_name t)"
      by simp_all
    have "t' \<in> set table'" "tag_name t' = tag_name t" using sub by (auto simp: t'_def)
    then have "\<exists>x \<in> set table'. tag_name x = tag_name t" by blast
    with sub rest show ?thesis by auto
  qed
qed

lemma flush_fiction_type_keeps:
  "flush_fiction_type table f = Inr (table', i) \<Longrightarrow>
     set table \<subseteq> set table' \<and>
     (ft_id f = None \<longrightarrow> (\<exists>x \<in> set table'. ft_name x = ft_name f))"
  by (auto simp: flush_fiction_type_def Let_def split: option.splits if_splits)

lemma commit_new_recommendation_flushed:
  assumes "commit_new_recommendation s a b c d f ts u = Inr (s', row)"
  shows "(\<exists>ids. flush_tags (tbl_tag s) ts = Inr (tbl_tag s', ids)) \<and>
         (\<exists>fid. flush_fiction_type (tbl_fiction_type s) f = Inr (tbl_fiction_type s', fid))"
  using assms unfolding commit_new_recommendation_def Let_def
  by (auto split: option.splits sum.splits prod.splits)

lemma post_recommendation_commit:
  assumes "post_recommendation e s rc u = (Inr resp, s')"
  shows "\<exists>row. commit_new_recommendation s (rc_title rc) (rc_short_description rc)
                (rc_opinion rc) (env_recommendation_published_default e)
                (save_fiction_type s (rc_fiction_type rc)) (save_tags s (rc_tags rc)) u
        = Inr (s', row)"
proof -
  have eq: "(case commit_new_recommendation s (rc_title rc) (rc_short_description rc)
                (rc_opinion rc) (env_recommendation_published_default e)
                (save_fiction_type s (rc_fiction_type rc)) (save_tags s (rc_tags rc)) u of
           Inl err \<Rightarrow> (Inl err, s)
         | Inr (s', r') \<Rightarrow> (Inr (load_recommendation s' r'), s')) = (Inr resp, s')"
    using assms unfolding post_recommendation_def post_recommendation_at_def Let_def .
  from commit_case_Inr [OF eq] show ?thesis by (elim exE conjE) (rule exI)
qed

lemma post_recommendation_persists:
  assumes "post_recommendation e s rc u = (Inr resp, s')"
  shows "(\<forall>raw \<in> set (rc_tags rc). \<exists>x \<in> set (tbl_tag s').
            tag_name x = lower (replace_char CHR '' '' CHR ''-'' (strip raw))) \<and>
         (\<exists>x \<in> set (tbl_fiction_type s'). ft_name x = lower (strip (rc_fiction_type rc)))"
proof -
  from post_recommendation_commit [OF assms] obtain row where
    c: "commit_new_recommendation s (rc_title rc) (rc_short_description rc)
                (rc_opinion rc) (env_recommendation_published_default e)
                (save_fiction_type s (rc_fiction_type rc)) (save_tags s (rc_tags rc)) u
        = Inr (s', row)" by blast
  from commit_new_recommendation_flushed [OF c] obtain ids fid where
    ft: "flush_tags (tbl_tag s) (save_tags s (rc_tags rc)) = Inr (tbl_tag s', ids)" and
    ff: "flush_fiction_type (tbl_fiction_type s) (save_fiction_type s (rc_fiction_type rc)) =
           Inr (tbl_fiction_type s', fid)"
    by blast
  note kt = flush_tags_keeps [OF ft]
  note kf = flush_fiction_type_keeps [OF ff]
  have tags_eq: "save_tags s (rc_tags rc) = map (resolve_tag s) (rc_tags rc)"
    by (simp add: save_tags_def save_tags_loop_map)
  have "\<exists>x \<in> set (tbl_tag s').
            tag_name x = lower (replace_char CHR '' '' CHR ''-'' (strip raw))"
    if raw: "raw \<in> set (rc_tags rc)" for raw
  proof -
    have mem: "resolve_tag s raw \<in> set (save_tags s (rc_tags rc))"
      using raw by (simp add: tags_eq)
    have nm: "tag_name (resolve_tag s raw) =
                lower (replace_char CHR '' '' CHR ''-'' (strip raw))"
      using resolve_tag_props by blast
    show ?thesis
    proof (cases "tag_id (resolve_tag s raw) = None")
      case True
      with kt mem obtain x where "x \<in> set (tbl_tag s')"
        "tag_name x = tag_name (resolve_tag s raw)" by blast
      with nm show ?thesis by auto
    next
      case False
      then have "resolve_tag s raw \<in> set (tbl_tag s)"
        by (auto simp: resolve_tag_def Let_def split: option.splits dest: find_name)
      with kt have "resolve_tag s raw \<in> set (tbl_tag s')" by blast
      with nm show ?thesis by blast
    qed
  qed
  moreover have "\<exists>x \<in> set (tbl_fiction_type s'). ft_name x = lower (strip (rc_fiction_type rc))"
  proof (cases "ft_id (save_fiction_type s (rc_fiction_type rc)) = None")
    case True
    with kf obtain x where "x \<in> set (tbl_fiction_type s')"
      "ft_name x = ft_name (save_fiction_type s (rc_fiction_type rc))" by blast
    moreover have "ft_name (save_fiction_type s (rc_fiction_type rc)) =
                   lower (strip (rc_fiction_type rc))"
      by (auto simp: save_fiction_type_def Let_def split: option.splits dest: find_name)
    ultimately show ?thesis by auto
  next
    case False
    then have "save_fiction_type s (rc_fiction_type rc) \<in> set (tbl_fiction_type s) \<and>
               ft_name (save_fiction_type s (rc_fiction_type rc)) =
                   lower (strip (rc_fiction_type rc))"
      by (auto simp: save_fiction_type_def Let_def split: option.splits dest: find_name)
    with kf show ?thesis by blast
  qed
  ultimately show ?thesis by blast
qed

text \<open>
  C4, as amended. \<open>save_tags\<close> returns one tag per label, in order. The name of each is
  the label after \<open>strip()\<close>, the replacement of every space by a hyphen (one hyphen
  per space) and \<open>lower()\<close>; when the tag table has a row with that name the element
  is a row of the table, otherwise it is a new object without primary key.
  \<open>save_fiction_type\<close> returns a fiction type whose name is the argument after
  \<open>strip()\<close> and \<open>lower()\<close>; when the table has a row with that name it is a row of the
  table, otherwise a new object without primary key whose slug is the name with every
  space replaced by a hyphen. Neither function writes to the tables; after a
  successful \<open>post_recommendation\<close> the tables hold a tag with the name of every label
  and a fiction type with the name of the request's fiction type.
\<close>

theorem deduplicator_lookup_or_new:
  "(length (save_tags s tags) = length tags \<and>
    (\<forall>i < length tags.
       tag_name (save_tags s tags ! i) =
         lower (replace_char CHR '' '' CHR ''-'' (strip (tags ! i))) \<and>
       ((\<exists>x \<in> set (tbl_tag s).
           tag_name x = lower (replace_char CHR '' '' CHR ''-'' (strip (tags ! i))))
          \<longrightarrow> save_tags s tags ! i \<in> set (tbl_tag s)) \<and>
       ((\<forall>x \<in> set (tbl_tag s).
           tag_name x \<noteq> lower (replace_char CHR '' '' CHR ''-'' (strip (tags ! i))))
          \<longrightarrow> tag_id (save_tags s tags ! i) = None)) \<and>
    ft_name (save_fiction_type s fiction_type) = lower (strip fiction_type) \<and>
    ((\<exists>x \<in> set (tbl_fiction_type s). ft_name x = lower (strip fiction_type))
       \<longrightarrow> save_fiction_type s fiction_type \<in> set (tbl_fiction_type s)) \<and>
    ((\<forall>x \<in> set (tbl_fiction_type s). ft_name x \<noteq> lower (strip fiction_type))
       \<longrightarrow> ft_id (save_fiction_type s fiction_type) = None \<and>
           ft_slug (save_fiction_type s fiction_type) =
             replace_char CHR '' '' CHR ''-'' (lower (strip fiction_type)))) \<and>
   (post_recommendation e s data u = (Inr resp, s') \<longrightarrow>
      (\<forall>raw \<in> set (rc_tags data). \<exists>x \<in> set (tbl_tag s').
          tag_name x = lower (replace_char CHR '' '' CHR ''-'' (strip raw))) \<and>
      (\<exists>x \<in> set (tbl_fiction_type s').
          ft_name x = lower (strip (rc_fiction_type data))))"
proof -
  have tags_eq: "save_tags s tags = map (resolve_tag s) tags"
    by (simp add: save_tags_def save_tags_loop_map)
  have ft: "ft_name (save_fiction_type s fiction_type) = lower (strip fiction_type) \<and>
   ((\<exists>x \<in> set (tbl_fiction_type s). ft_name x = lower (strip fiction_type))
      \<longrightarrow> save_fiction_type s fiction_type \<in> set (tbl_fiction_type s)) \<and>
   ((\<forall>x \<in> set (tbl_fiction_type s). ft_name x \<noteq> lower (strip fiction_type))
      \<longrightarrow> ft_id (save_fiction_type s fiction_type) = None \<and>
          ft_slug (save_fiction_type s fiction_type) =
            replace_char CHR '' '' CHR ''-'' (lower (strip fiction_type)))"
    by (auto simp: save_fiction_type_def Let_def find_None_iff split: option.splits
          dest: find_name)
  have lookup: "length (save_tags s tags) = length tags \<and>
   (\<forall>i < length tags.
      tag_name (save_tags s tags ! i) =
        lower (replace_char CHR '' '' CHR ''-'' (strip (tags ! i))) \<and>
      ((\<exists>x \<in> set (tbl_tag s).
          tag_name x = lower (replace_char CHR '' '' CHR ''-'' (strip (tags ! i))))
         \<longrightarrow> save_tags s tags ! i \<in> set (tbl_tag s)) \<and>
      ((\<forall>x \<in> set (tbl_tag s).
          tag_name x \<noteq> lower (replace_char CHR '' '' CHR ''-'' (strip (tags ! i))))
         \<longrightarrow> tag_id (save_tags s tags ! i) = None)) \<and>
   ft_name (save_fiction_type s fiction_type) = lower (strip fiction_type) \<and>
   ((\<exists>x \<in> set (tbl_fiction_type s). ft_name x = lower (strip fiction_type))
      \<longrightarrow> save_fiction_type s fiction_type \<in> set (tbl_fiction_type s)) \<and>
   ((\<forall>x \<in> set (tbl_fiction_type s). ft_name x \<noteq> lower (strip fiction_type))
      \<longrightarrow> ft_id (save_fiction_type s fiction_type) = None \<and>
          ft_slug (save_fiction_type s fiction_type) =
            replace_char CHR '' '' CHR ''-'' (lower (strip fiction_type)))"
    using ft resolve_tag_props by (simp add: tags_eq)
  have persisted: "post_recommendation e s data u = (Inr resp, s') \<longrightarrow>
      (\<forall>raw \<in> set (rc_tags data). \<exists>x \<in> set (tbl_tag s').
          tag_name x = lower (replace_char CHR '' '' CHR ''-'' (strip raw))) \<and>
      (\<exists>x \<in> set (tbl_fiction_type s').
          ft_name x = lower (strip (rc_fiction_type data)))"
    using post_recommendation_persists by blast
  show ?thesis
    using lookup persisted by (rule conjI)
qed


text \<open>The amended statement at the example database.\<close>

theorem deduplicator_lookup_or_new_witness:
  "(0::nat) < length [''Space'', ''Sci-Fy''] \<and>
   tag_name (save_tags example_db [''Space'', ''Sci-Fy''] ! 0) = ''space'' \<and>
   save_tags example_db [''Space'', ''Sci-Fy''] ! 0 \<in> set (tbl_tag example_db) \<and>
   tag_name (save_tags example_db [''Space'', ''Sci-Fy''] ! 1) = ''sci-fy'' \<and>
   tag_id (save_tags example_db [''Space'', ''Sci-Fy''] ! 1) = None \<and>
   save_fiction_type example_db '' Movie '' \<in> set (tbl_fiction_type example_db) \<and>
   ft_id (save_fiction_type example_db ''Short Story'') = None \<and>
   ft_slug (save_fiction_type example_db ''Short Story'') = ''short-story'' \<and>
   (\<exists>resp s'. post_recommendation example_env example_db one_label alice = (Inr resp, s') \<and>
      (\<exists>x \<in> set (tbl_tag s'). tag_name x = ''sci-fy''))"
proof -
  note t = deduplicator_lookup_or_new [of example_db "[''Space'', ''Sci-Fy'']"]
  have n: "lower (replace_char CHR '' '' CHR ''-'' (strip ''Space'')) = ''space''"
    "lower (replace_char CHR '' '' CHR ''-'' (strip ''Sci-Fy'')) = ''sci-fy''"
    "lower (strip '' Movie '') = ''movie''"
    "lower (strip ''Short Story'') = ''short story''"
    "replace_char CHR '' '' CHR ''-'' ''short story'' = ''short-story''"
    by code_simp+
  have tb: "tbl_tag example_db = [\<lparr>tag_id = Some 1, tag_name = ''space''\<rparr>]"
    "tbl_fiction_type example_db = [\<lparr>ft_id = Some 1, ft_name = ''movie'', ft_slug = ''movie''\<rparr>]"
    by (simp_all add: example_db_def)
  have tg: "rc_tags one_label = [''Sci-Fy'']"
    by (simp add: one_label_def duplicate_labels_def)
  from t [of "'' Movie ''"] have 0: "\<forall>i<2.
      tag_name (save_tags example_db [''Space'', ''Sci-Fy''] ! i) =
        lower (replace_char CHR '' '' CHR ''-'' (strip ([''Space'', ''Sci-Fy''] ! i))) \<and>
      ((\<exists>x \<in> set (tbl_tag example_db).
          tag_name x = lower (replace_char CHR '' '' CHR ''-'' (strip ([''Space'', ''Sci-Fy''] ! i))))
         \<longrightarrow> save_tags example_db [''Space'', ''Sci-Fy''] ! i \<in> set (tbl_tag example_db)) \<and>
      ((\<forall>x \<in> set (tbl_tag example_db).
          tag_name x \<noteq> lower (replace_char CHR '' '' CHR ''-'' (strip ([''Space'', ''Sci-Fy''] ! i))))
         \<longrightarrow> tag_id (save_tags example_db [''Space'', ''Sci-Fy''] ! i) = None)"
    by simp
  from 0 have a: "tag_name (save_tags example_db [''Space'', ''Sci-Fy''] ! 0) = ''space''"
    "save_tags example_db [''Space'', ''Sci-Fy''] ! 0 \<in> set (tbl_tag example_db)"
    using n(1) tb(1) by (simp_all)
  from 0 have b: "tag_name (save_tags example_db [''Space'', ''Sci-Fy''] ! 1) = ''sci-fy''"
    "tag_id (save_tags example_db [''Space'', ''Sci-Fy''] ! 1) = None"
    using n(2) tb(1) by (simp_all)
  from t [of "'' Movie ''"] have c: "save_fiction_type example_db '' Movie '' \<in> set (tbl_fiction_type example_db)"
    using n(3) tb(2) by simp
  from t [of "''Short Story''"] have d: "ft_id (save_fiction_type example_db ''Short Story'') = None"
   "ft_slug (save_fiction_type example_db ''Short Story'') = ''short-story''"
    using n(4,5) tb(2) by simp_all
  have "raised (post_recommendation example_env example_db one_label alice) = None"
    by code_simp
  then obtain resp s' where
    ok: "post_recommendation example_env example_db one_label alice = (Inr resp, s')"
    by (cases "post_recommendation example_env example_db one_label alice")
       (auto simp: raised_def split: sum.splits)
  from deduplicator_lookup_or_new [of example_db "[]" "[]" example_env one_label alice resp s'] ok
  have "\<forall>raw \<in> set (rc_tags one_label). \<exists>x \<in> set (tbl_tag s').
          tag_name x = lower (replace_char CHR '' '' CHR ''-'' (strip raw))"
    by blast
  then have "\<exists>x \<in> set (tbl_tag s'). tag_name x = ''sci-fy''"
    using n(2) by (simp add: tg)
  with ok have f: "\<exists>resp s'.
      post_recommendation example_env example_db one_label alice = (Inr resp, s') \<and>
      (\<exists>x \<in> set (tbl_tag s'). tag_name x = ''sci-fy'')"
    by blast
  show ?thesis using a b c d f by simp
qed

text \<open>
  C4 as the specification states it fails: a run of two blanks inside a label is kept
  as two hyphens by \<open>save_tags\<close> and as two blanks in the name \<open>save_fiction_type\<close>
  returns, where the specification's normalisation leaves one separator.
\<close>

theorem normalisation_counterexample:
  "save_tags example_db [''sci  fy''] = [\<lparr>tag_id = None, tag_name = ''sci--fy''\<rparr>] \<and>
   spec_normalize CHR ''-'' ''sci  fy'' = ''sci-fy'' \<and>
   map tag_name (save_tags example_db [''sci  fy'']) \<noteq> [spec_normalize CHR ''-'' ''sci  fy''] \<and>
   map tag_name (save_tags example_db [''sci  fy'']) \<noteq> [spec_normalize CHR '' '' ''sci  fy''] \<and>
   save_fiction_type example_db ''Short  Story'' =
     \<lparr>ft_id = None, ft_name = ''short  story'', ft_slug = ''short--story''\<rparr> \<and>
   ft_name (save_fiction_type example_db ''Short  Story'') \<noteq>
     spec_normalize CHR '' '' ''Short  Story'' \<and>
   ft_name (save_fiction_type example_db ''Short  Story'') \<noteq>
     spec_normalize CHR ''-'' ''Short  Story''"
  by code_simp

subsection \<open>A uniqueness violation at commit\<close>

lemma commit_new_recommendation_error:
  "commit_new_recommendation s a b c d f ts u = Inl err \<Longrightarrow> err = IntegrityError"
  unfolding commit_new_recommendation_def Let_def
  by (simp split: option.splits sum.splits prod.splits
        add: flush_fiction_type_error flush_tags_error insert_links_error)

lemma commit_new_recommendation_flush_fails:
  assumes "flush_tags (tbl_tag s) ts = Inl err \<or>
           flush_fiction_type (tbl_fiction_type s) f = Inl err"
  shows "commit_new_recommendation s a b c d f ts u = Inl IntegrityError"
proof -
  from assms have "flush_tags (tbl_tag s) ts = Inl IntegrityError \<or>
           flush_fiction_type (tbl_fiction_type s) f = Inl IntegrityError"
    using flush_tags_error flush_fiction_type_error by blast
  then show ?thesis
    unfolding commit_new_recommendation_def Let_def
    by (auto split: option.splits sum.splits prod.splits dest: flush_fiction_type_error)
qed


text \<open>
  C5, as amended. When the insertion of a tag or fiction type that the request
  constructed violates a uniqueness constraint at commit, \<open>post_recommendation\<close> ends
  with \<open>IntegrityError\<close> and the tables at commit are unchanged: the handler neither
  looks the row up again nor retries. Every exception the handler ends with is the
  storage layer's \<open>IntegrityError\<close> (status 500), with the tables unchanged.
\<close>

theorem commit_failure_propagates:
  "(flush_tags (tbl_tag at_commit) (save_tags session (rc_tags data)) = Inl err \<or>
    flush_fiction_type (tbl_fiction_type at_commit)
      (save_fiction_type session (rc_fiction_type data)) = Inl err \<longrightarrow>
      post_recommendation_at e session at_commit data u = (Inl IntegrityError, at_commit)) \<and>
   (fst (post_recommendation_at e session at_commit data u) = Inl err \<longrightarrow>
      err = IntegrityError \<and> status_code err = 500 \<and>
      snd (post_recommendation_at e session at_commit data u) = at_commit)"
proof (intro conjI impI)
  assume "flush_tags (tbl_tag at_commit) (save_tags session (rc_tags data)) = Inl err \<or>
    flush_fiction_type (tbl_fiction_type at_commit)
      (save_fiction_type session (rc_fiction_type data)) = Inl err"
  then show "post_recommendation_at e session at_commit data u = (Inl IntegrityError, at_commit)"
    by (simp add: post_recommendation_at_def Let_def commit_new_recommendation_flush_fails)
next
  assume a: "fst (post_recommendation_at e session at_commit data u) = Inl err"
  then obtain x where x: "commit_new_recommendation at_commit (rc_title data)
      (rc_short_description data) (rc_opinion data) (env_recommendation_published_default e)
      (save_fiction_type session (rc_fiction_type data)) (save_tags session (rc_tags data)) u
      = Inl x"
    by (auto simp: post_recommendation_at_def Let_def split: sum.splits)
  with a have "x = err" and s: "snd (post_recommendation_at e session at_commit data u) = at_commit"
    by (simp_all add: post_recommendation_at_def Let_def)
  with x have "err = IntegrityError" using commit_new_recommendation_error by blast
  then show "err = IntegrityError" "status_code err = 500"
    "snd (post_recommendation_at e session at_commit data u) = at_commit" using s by simp_all
qed


text \<open>The amended statement at the request with two labels of the same name.\<close>

theorem commit_failure_propagates_witness:
  "flush_tags (tbl_tag example_db) (save_tags example_db (rc_tags duplicate_labels)) =
     Inl IntegrityError \<and>
   post_recommendation_at example_env example_db example_db duplicate_labels alice =
     (Inl IntegrityError, example_db)"
proof -
  have h: "flush_tags (tbl_tag example_db) (save_tags example_db (rc_tags duplicate_labels)) =
     Inl IntegrityError"
    by code_simp
  from h commit_failure_propagates [of example_db example_db duplicate_labels IntegrityError
      example_env alice]
  show ?thesis by blast
qed


text \<open>
  C5 as the specification states it fails: the request looks \<open>sci-fy\<close> up, finds no row
  and constructs the tag; another request inserts \<open>sci-fy\<close> before the commit; the
  commit violates the unique constraint and the request ends with \<open>IntegrityError\<close>,
  although the lookup on the tables after the other request finds the row and the
  handler run on them succeeds.
\<close>

theorem unique_violation_not_retried:
  "save_tags example_db (rc_tags one_label) = [\<lparr>tag_id = None, tag_name = ''sci-fy''\<rparr>] \<and>
   flush_tags (tbl_tag example_db_after_winner) (save_tags example_db (rc_tags one_label)) =
     Inl IntegrityError \<and>
   post_recommendation_at example_env example_db example_db_after_winner one_label alice =
     (Inl IntegrityError, example_db_after_winner) \<and>
   save_tags example_db_after_winner (rc_tags one_label) =
     [\<lparr>tag_id = Some 2, tag_name = ''sci-fy''\<rparr>] \<and>
   raised (post_recommendation example_env example_db_after_winner one_label alice) = None"
  by code_simp



subsection \<open>One reaction per user and recommendation\<close>

lemma fold_max_init: "(a::int) \<le> fold max xs a"
proof (induction xs arbitrary: a)
  case Nil
  show ?case by simp
next
  case (Cons x xs)
  have "a \<le> max x a" by simp
  also have "\<dots> \<le> fold max xs (max x a)" by (rule Cons.IH)
  finally show ?case by simp
qed

lemma fold_max_member: "(x::int) \<in> set xs \<Longrightarrow> x \<le> fold max xs a"
proof (induction xs arbitrary: a)
  case Nil
  then show ?case by simp
next
  case (Cons y ys)
  show ?case
  proof (cases "x = y")
    case True
    have "x \<le> max y a" using True by simp
    also have "\<dots> \<le> fold max ys (max y a)" by (rule fold_max_init)
    finally show ?thesis by simp
  next
    case False
    with Cons.prems have "x \<in> set ys" by simp
    then show ?thesis using Cons.IH by simp
  qed
qed

lemma fresh_id_fresh: "Some (fresh_id ids) \<notin> set ids"
proof
  assume "Some (fresh_id ids) \<in> set ids"
  then have "fresh_id ids \<in> set (List.map_filter (\<lambda>i. i) ids)"
    by (force simp: List.map_filter_def)
  then have "fresh_id ids \<le> fold max (List.map_filter (\<lambda>i. i) ids) 0"
    by (rule fold_max_member)
  then show False by (simp add: fresh_id_def)
qed

lemma commit_new_recommendation_reactions:
  "commit_new_recommendation s a b c d f ts u = Inr (s', r) \<Longrightarrow>
     tbl_reaction s' = tbl_reaction s"
  unfolding commit_new_recommendation_def Let_def
  by (auto split: option.splits sum.splits prod.splits)

lemma commit_recommendation_update_reactions:
  "commit_recommendation_update s rid r f ts = Inr (s', r') \<Longrightarrow>
     tbl_reaction s' = tbl_reaction s"
  unfolding commit_recommendation_update_def Let_def
  by (auto split: sum.splits prod.splits)

lemma snd_commit_case:
  assumes "\<And>s' r'. x = Inr (s', r') \<Longrightarrow> P s'" "P s"
  shows "P (snd (case x of Inl err \<Rightarrow> (Inl err, s) | Inr (s', r') \<Rightarrow> (Inr (f s' r'), s')))"
  using assms by (cases x) auto

lemma post_recommendation_reactions:
  "tbl_reaction (snd (post_recommendation e s d u)) = tbl_reaction s"
  unfolding post_recommendation_def post_recommendation_at_def Let_def
  by (rule snd_commit_case) (auto dest: commit_new_recommendation_reactions)

lemma update_recommendation_reactions:
  "tbl_reaction (snd (update_recommendation e s rid u d)) = tbl_reaction s"
proof -
  from lookup_results(1) [of s rid]
  consider (raises) "get_recommendation_by_id s rid = Inl OverflowError"
    | (absent) "get_recommendation_by_id s rid = Inr None"
    | (found) r where "get_recommendation_by_id s rid = Inr (Some r)"
    by blast
  then show ?thesis
  proof cases
    case raises
    then show ?thesis by (simp add: update_recommendation_def)
  next
    case absent
    then show ?thesis by (simp add: update_recommendation_def)
  next
    case found
    show ?thesis
    proof (cases "Some (rec_user_id r) \<noteq> usr_id u \<or> no_data d")
      case True
      with found show ?thesis by (auto simp: update_recommendation_def)
    next
      case False
      with found show ?thesis
        unfolding update_recommendation_def Let_def
        apply (simp split del: if_split)
        apply (rule snd_commit_case)
         apply (erule commit_recommendation_update_reactions)
        apply (rule refl)
        done
    qed
  qed
qed

lemma comment_handlers_reactions:
  "tbl_reaction (snd (post_comment e s rid u cc)) = tbl_reaction s"
  "tbl_reaction (snd (update_comment e s rid cid cd u)) = tbl_reaction s"
  "tbl_reaction (snd (delete_comment e s rid cid u)) = tbl_reaction s"
  by (auto simp: post_comment_def update_comment_def delete_comment_def Let_def
        split: sum.splits option.splits)

lemma post_reaction_constraints:
  assumes "reaction_primary_key s" "user_recommendation_uc s"
  shows "reaction_primary_key (snd (post_reaction e s rid u d)) \<and>
         user_recommendation_uc (snd (post_reaction e s rid u d))"
proof -
  have fresh: "Some (fresh_id (map rea_id (tbl_reaction s))) \<notin> rea_id ` set (tbl_reaction s)"
    using fresh_id_fresh [of "map rea_id (tbl_reaction s)"] by simp
  show ?thesis
    using assms fresh
    unfolding post_reaction_def insert_reaction_def Let_def reaction_primary_key_def
      user_recommendation_uc_def
    by (auto split: sum.splits option.splits)
qed

lemma update_reaction_constraints:
  assumes "reaction_primary_key s" "user_recommendation_uc s"
  shows "reaction_primary_key (snd (update_reaction e s rid xid d u)) \<and>
         user_recommendation_uc (snd (update_reaction e s rid xid d u))"
proof (cases "\<exists>x. get_reaction_by_id_and_recommendation_id s rid xid = Inr (Some x)")
  case False
  with lookup_results(3) [of s rid xid]
  have "get_reaction_by_id_and_recommendation_id s rid xid = Inl OverflowError \<or>
        get_reaction_by_id_and_recommendation_id s rid xid = Inr None" by blast
  then have "snd (update_reaction e s rid xid d u) = s"
    by (auto simp: update_reaction_def split: sum.splits option.splits)
  with assms show ?thesis by simp
next
  case True
  then obtain x where Some: "get_reaction_by_id_and_recommendation_id s rid xid = Inr (Some x)"
    by blast
  from get_reaction_found [OF Some]
  have found: "find (\<lambda>x. rea_recommendation_id x = rid \<and> rea_id x = Some xid)
                (tbl_reaction s) = Some x" by simp
  then have x: "x \<in> set (tbl_reaction s)" "rea_id x = Some xid"
    using find_holds [of "\<lambda>x. rea_recommendation_id x = rid \<and> rea_id x = Some xid"
        "tbl_reaction s" x]
    by simp_all
  define x' where "x' = x\<lparr>rea_is_positive := rau_is_positive d\<rparr>"
  define f where "f = (\<lambda>y. if rea_id y = Some xid then x' else y)"
  have x'_id: "rea_id x' = Some xid"
    and x'_pair: "(rea_user_id x', rea_recommendation_id x') =
                  (rea_user_id x, rea_recommendation_id x)"
    using x(2) by (simp_all add: x'_def)
  have inj: "inj_on rea_id (set (tbl_reaction s))"
    using assms(1) by (simp add: reaction_primary_key_def distinct_map)
  have same: "y = x" if "y \<in> set (tbl_reaction s)" "rea_id y = Some xid" for y
    using inj that x by (simp add: inj_on_def)
  have ids: "map rea_id (map f xs) = map rea_id xs" for xs
    by (induction xs) (simp_all add: f_def x'_id)
  have pairs: "set xs \<subseteq> set (tbl_reaction s) \<Longrightarrow>
      map (\<lambda>y. (rea_user_id y, rea_recommendation_id y)) (map f xs) =
      map (\<lambda>y. (rea_user_id y, rea_recommendation_id y)) xs" for xs
  proof (induction xs)
    case Nil
    show ?case by simp
  next
    case (Cons y ys)
    then have y: "y \<in> set (tbl_reaction s)" and ys: "set ys \<subseteq> set (tbl_reaction s)"
      by simp_all
    have "(rea_user_id (f y), rea_recommendation_id (f y)) =
          (rea_user_id y, rea_recommendation_id y)"
    proof (cases "rea_id y = Some xid")
      case True
      then have "y = x" using same y by simp
      with True show ?thesis using x'_pair by (simp add: f_def)
    next
      case False
      then show ?thesis by (simp add: f_def)
    qed
    with Cons.IH [OF ys] show ?case by simp
  qed
  have cases: "snd (update_reaction e s rid xid d u) = s \<or>
        snd (update_reaction e s rid xid d u) = s\<lparr>tbl_reaction := map f (tbl_reaction s)\<rparr>"
    using Some unfolding update_reaction_def Let_def f_def x'_def
    by (simp split: sum.splits option.splits)
  then show ?thesis
  proof
    assume "snd (update_reaction e s rid xid d u) = s"
    with assms show ?thesis by simp
  next
    assume a: "snd (update_reaction e s rid xid d u) = s\<lparr>tbl_reaction := map f (tbl_reaction s)\<rparr>"
    have 1: "distinct (map rea_id (map f (tbl_reaction s)))"
      unfolding ids using assms(1) by (simp add: reaction_primary_key_def)
    have 2: "distinct (map (\<lambda>y. (rea_user_id y, rea_recommendation_id y))
                         (map f (tbl_reaction s)))"
      unfolding pairs [OF subset_refl] using assms(2) by (simp add: user_recommendation_uc_def)
    show ?thesis
      using 1 2 by (simp add: a reaction_primary_key_def user_recommendation_uc_def)
  qed
qed

lemma delete_reaction_constraints:
  assumes "reaction_primary_key s" "user_recommendation_uc s"
  shows "reaction_primary_key (snd (delete_reaction e s rid xid u)) \<and>
         user_recommendation_uc (snd (delete_reaction e s rid xid u))"
  using assms
  unfolding delete_reaction_def reaction_primary_key_def user_recommendation_uc_def
  by (auto split: sum.splits option.splits intro: distinct_map_filter)

lemma delete_recommendation_constraints:
  assumes "reaction_primary_key s" "user_recommendation_uc s"
  shows "reaction_primary_key (snd (delete_recommendation e s rid u)) \<and>
         user_recommendation_uc (snd (delete_recommendation e s rid u))"
  using assms
  unfolding delete_recommendation_def commit_recommendation_delete_def
    reaction_primary_key_def user_recommendation_uc_def
  by (auto split: sum.splits option.splits intro: distinct_map_filter)

lemma post_reaction_conflict:
  assumes "get_recommendation_by_id s rid = Inr (Some r)" "usr_id u = Some uid"
    "x \<in> set (tbl_reaction s)" "rea_user_id x = uid" "rea_recommendation_id x = rid"
  shows "post_reaction e s rid u d = (Inl (HTTPException 409 (ReactionConflict rid)), s)"
proof -
  from get_recommendation_by_id_found [OF assms(1)] have r: "rec_id r = Some rid"
    using find_satisfies [of "\<lambda>r. rec_id r = Some rid" "tbl_recommendation s" r] by blast
  have "get_reaction_by_recommendation_id_and_user_id s (rec_id r) (usr_id u) \<noteq> None"
    using assms(2-5) r
    by (auto simp: get_reaction_by_recommendation_id_and_user_id_def find_None_iff)
  then show ?thesis
    using assms(1) by (auto simp: post_reaction_def HTTP_409_CONFLICT_def)
qed

text \<open>
  C6. The primary key of the reaction table and the uniqueness of the pair
  (\<open>user_id\<close>, \<open>recommendation_id\<close>) hold after every handler that writes when they
  held before, so no user ever has two reactions to one recommendation; and
  \<open>post_reaction\<close> by a user who already has a reaction to the recommendation raises
  409 and leaves the tables unchanged.
\<close>

theorem one_reaction_per_user_and_recommendation:
  "(reaction_constraints s \<longrightarrow>
      reaction_constraints (snd (post_reaction e s rid u xc)) \<and>
      reaction_constraints (snd (update_reaction e s rid xid xd u)) \<and>
      reaction_constraints (snd (delete_reaction e s rid xid u)) \<and>
      reaction_constraints (snd (post_recommendation e s rc u)) \<and>
      reaction_constraints (snd (update_recommendation e s rid u d)) \<and>
      reaction_constraints (snd (delete_recommendation e s rid u)) \<and>
      reaction_constraints (snd (post_comment e s rid u cc)) \<and>
      reaction_constraints (snd (update_comment e s rid cid cd u)) \<and>
      reaction_constraints (snd (delete_comment e s rid cid u))) \<and>
   (get_recommendation_by_id s rid = Inr (Some r) \<and> usr_id u = Some uid \<and>
    x \<in> set (tbl_reaction s) \<and> rea_user_id x = uid \<and> rea_recommendation_id x = rid \<longrightarrow>
      post_reaction e s rid u xc =
        (Inl (HTTPException 409 (ReactionConflict rid)), s))"
proof (intro conjI impI)
  assume c: "reaction_constraints s"
  then have pk: "reaction_primary_key s" and uc: "user_recommendation_uc s"
    by (simp_all add: reaction_constraints_def)
  have same: "reaction_constraints s'" if "tbl_reaction s' = tbl_reaction s" for s'
    using that pk uc
    by (simp add: reaction_constraints_def reaction_primary_key_def user_recommendation_uc_def)
  show "reaction_constraints (snd (post_reaction e s rid u xc))"
    using post_reaction_constraints [OF pk uc] by (simp add: reaction_constraints_def)
  show "reaction_constraints (snd (update_reaction e s rid xid xd u))"
    using update_reaction_constraints [OF pk uc] by (simp add: reaction_constraints_def)
  show "reaction_constraints (snd (delete_reaction e s rid xid u))"
    using delete_reaction_constraints [OF pk uc] by (simp add: reaction_constraints_def)
  show "reaction_constraints (snd (delete_recommendation e s rid u))"
    using delete_recommendation_constraints [OF pk uc] by (simp add: reaction_constraints_def)
  show "reaction_constraints (snd (post_recommendation e s rc u))"
    by (rule same) (rule post_recommendation_reactions)
  show "reaction_constraints (snd (update_recommendation e s rid u d))"
    by (rule same) (rule update_recommendation_reactions)
  show "reaction_constraints (snd (post_comment e s rid u cc))"
    by (rule same) (rule comment_handlers_reactions)
  show "reaction_constraints (snd (update_comment e s rid cid cd u))"
    by (rule same) (rule comment_handlers_reactions)
  show "reaction_constraints (snd (delete_comment e s rid cid u))"
    by (rule same) (rule comment_handlers_reactions)
next
  assume "get_recommendation_by_id s rid = Inr (Some r) \<and> usr_id u = Some uid \<and>
    x \<in> set (tbl_reaction s) \<and> rea_user_id x = uid \<and> rea_recommendation_id x = rid"
  then show "post_reaction e s rid u xc =
        (Inl (HTTPException 409 (ReactionConflict rid)), s)"
    using post_reaction_conflict by blast
qed

text \<open>
  At the example database: user 1 has a reaction to recommendation 1 and is refused
  with 409; user 2 has none, the reaction is created and the constraints hold after.
\<close>

theorem one_reaction_per_user_and_recommendation_witness:
  "reaction_constraints example_db \<and>
   get_recommendation_by_id example_db 1 = Inr (Some example_recommendation) \<and>
   usr_id alice = Some 1 \<and> example_reaction \<in> set (tbl_reaction example_db) \<and>
   rea_user_id example_reaction = 1 \<and> rea_recommendation_id example_reaction = 1 \<and>
   post_reaction example_env example_db 1 alice \<lparr>rac_is_positive = False\<rparr> =
     (Inl (HTTPException 409 (ReactionConflict 1)), example_db) \<and>
   reaction_constraints
     (snd (post_reaction example_env example_db 1 bob \<lparr>rac_is_positive = False\<rparr>)) \<and>
   length (tbl_reaction
     (snd (post_reaction example_env example_db 1 bob \<lparr>rac_is_positive = False\<rparr>))) = 2"
proof -
  have c: "reaction_constraints example_db"
    by (simp add: reaction_constraints_def reaction_primary_key_def user_recommendation_uc_def
          example_defs)
  have h: "get_recommendation_by_id example_db 1 = Inr (Some example_recommendation)"
    "usr_id alice = Some 1" "example_reaction \<in> set (tbl_reaction example_db)"
    "rea_user_id example_reaction = 1" "rea_recommendation_id example_reaction = 1"
    by (simp_all add: lookup_defs example_defs)
  have n: "length (tbl_reaction
     (snd (post_reaction example_env example_db 1 bob \<lparr>rac_is_positive = False\<rparr>))) = 2"
    by code_simp
  note a = one_reaction_per_user_and_recommendation [of example_db example_env 1 alice
      "\<lparr>rac_is_positive = False\<rparr>" 1 "\<lparr>rau_is_positive = False\<rparr>" duplicate_labels
      example_update "\<lparr>cc_content = ''x''\<rparr>" 1 "\<lparr>cu_content = ''x''\<rparr>"
      example_recommendation 1 example_reaction]
  note b = one_reaction_per_user_and_recommendation [of example_db example_env 1 bob
      "\<lparr>rac_is_positive = False\<rparr>" 1 "\<lparr>rau_is_positive = False\<rparr>" duplicate_labels
      example_update "\<lparr>cc_content = ''x''\<rparr>" 1 "\<lparr>cu_content = ''x''\<rparr>"
      example_recommendation 1 example_reaction]
  from a h have 1: "post_reaction example_env example_db 1 alice \<lparr>rac_is_positive = False\<rparr> =
     (Inl (HTTPException 409 (ReactionConflict 1)), example_db)"
    by blast
  from b c have 2: "reaction_constraints
     (snd (post_reaction example_env example_db 1 bob \<lparr>rac_is_positive = False\<rparr>))"
    by blast
  show ?thesis using c h 1 2 n by blast
qed


subsection \<open>Falsy values in a partial update\<close>

lemma assigned_fields_eq:
  "(let r1 = (if truthy (get_field (ru_title d))
               then r\<lparr>rec_title := the (get_field (ru_title d))\<rparr> else r);
         r2 = (if truthy (get_field (ru_short_description d))
               then r1\<lparr>rec_short_description := the (get_field (ru_short_description d))\<rparr>
               else r1);
         r3 = (if truthy (get_field (ru_opinion d))
               then r2\<lparr>rec_opinion := the (get_field (ru_opinion d))\<rparr> else r2)
     in r3\<lparr>rec_updated := Some (env_utcnow e)\<rparr>) = assigned_fields e r d"
  by (simp add: assigned_fields_def Let_def)

lemma update_recommendation_shape:
  assumes "get_recommendation_by_id s rid = Inr (Some r)" "Some (rec_user_id r) = usr_id u"
    "\<not> no_data d"
  shows "update_recommendation e s rid u d =
    (case commit_recommendation_update s rid (assigned_fields e r d)
            (assigned_fiction_type s d) (assigned_tags s d) of
       Inl err \<Rightarrow> (Inl err, s)
     | Inr (s', r') \<Rightarrow> (Inr (load_recommendation s' r'), s'))"
proof -
  have "update_recommendation e s rid u d =
    (case commit_recommendation_update s rid
        (let r1 = (if truthy (get_field (ru_title d))
               then r\<lparr>rec_title := the (get_field (ru_title d))\<rparr> else r);
         r2 = (if truthy (get_field (ru_short_description d))
               then r1\<lparr>rec_short_description := the (get_field (ru_short_description d))\<rparr>
               else r1);
         r3 = (if truthy (get_field (ru_opinion d))
               then r2\<lparr>rec_opinion := the (get_field (ru_opinion d))\<rparr> else r2)
         in r3\<lparr>rec_updated := Some (env_utcnow e)\<rparr>)
        (assigned_fiction_type s d) (assigned_tags s d) of
       Inl err \<Rightarrow> (Inl err, s)
     | Inr (s', r') \<Rightarrow> (Inr (load_recommendation s' r'), s'))"
    unfolding update_recommendation_def assigned_fiction_type_def assigned_tags_def Let_def
    by (simp only: assms sum.case option.case simp_thms if_False if_True)
  then show ?thesis by (simp only: assigned_fields_eq)
qed


lemma find_replace:
  assumes "find P xs = Some x" "P x'" "\<And>y. P y \<Longrightarrow> Q y"
  shows "find P (map (\<lambda>y. if Q y then x' else y) xs) = Some x'"
  using assms(1)
proof (induction xs)
  case Nil
  then show ?case by simp
next
  case (Cons y ys)
  show ?case
  proof (cases "Q y")
    case True
    then show ?thesis using assms(2) by simp
  next
    case False
    then have "\<not> P y" using assms(3) by blast
    with Cons False show ?thesis by simp
  qed
qed

lemma commit_recommendation_update_row:
  assumes "commit_recommendation_update s rid row f ts = Inr (s', row')"
  shows "(\<exists>fid. row' = row\<lparr>rec_fiction_type_id := fid\<rparr>) \<and>
         tbl_recommendation s' =
           map (\<lambda>r. if rec_id r = Some rid then row' else r) (tbl_recommendation s)"
proof -
  define x1 where "x1 = (case f of
       None \<Rightarrow> Inr (tbl_fiction_type s, rec_fiction_type_id row)
     | Some ft \<Rightarrow> flush_fiction_type (tbl_fiction_type s) ft)"
  define x2 where "x2 = (case ts of
       None \<Rightarrow> Inr (tbl_tag s, tbl_tagged_recommendations s)
     | Some tags \<Rightarrow> replace_tags (tbl_tag s) (tbl_tagged_recommendations s) rid tags)"
  have shape: "commit_recommendation_update s rid row f ts =
    (case x1 of Inl e \<Rightarrow> Inl e
     | Inr (fiction_types, fid) \<Rightarrow>
       (case x2 of Inl e \<Rightarrow> Inl e
        | Inr (tag_rows, links) \<Rightarrow>
            Inr (s\<lparr>tbl_fiction_type := fiction_types, tbl_tag := tag_rows,
                   tbl_recommendation :=
                     map (\<lambda>r. if rec_id r = Some rid then row\<lparr>rec_fiction_type_id := fid\<rparr>
                               else r) (tbl_recommendation s),
                   tbl_tagged_recommendations := links\<rparr>,
                 row\<lparr>rec_fiction_type_id := fid\<rparr>)))"
    unfolding commit_recommendation_update_def x1_def x2_def Let_def by (rule refl)
  from assms [unfolded shape] obtain fts fid where x1: "x1 = Inr (fts, fid)"
    by (cases x1) auto
  from assms [unfolded shape x1] obtain tgs links where x2: "x2 = Inr (tgs, links)"
    by (cases x2) auto
  from assms [unfolded shape x1 x2] show ?thesis by auto
qed

lemma update_recommendation_stored:
  assumes "get_recommendation_by_id s rid = Inr (Some r)" "Some (rec_user_id r) = usr_id u"
    "update_recommendation e s rid u d = (Inr resp, s')"
  shows "(\<exists>fid. rr_recommendation resp = (assigned_fields e r d)\<lparr>rec_fiction_type_id := fid\<rparr>) \<and>
         get_recommendation_by_id s' rid = Inr (Some (rr_recommendation resp))"
proof -
  have nd: "\<not> no_data d"
  proof
    assume "no_data d"
    with assms(1,2) have "update_recommendation e s rid u d =
        (Inl (HTTPException HTTP_400_BAD_REQUEST NoDataProvided), s)"
      by (simp add: update_recommendation_def)
    with assms(3) show False by simp
  qed
  have eq: "(case commit_recommendation_update s rid (assigned_fields e r d)
            (assigned_fiction_type s d) (assigned_tags s d) of
       Inl err \<Rightarrow> (Inl err, s)
     | Inr (s', r') \<Rightarrow> (Inr (load_recommendation s' r'), s')) = (Inr resp, s')"
    using assms(3) unfolding update_recommendation_shape [OF assms(1,2) nd] .
  from commit_case_Inr [OF eq] obtain r' where
    c: "commit_recommendation_update s rid (assigned_fields e r d)
          (assigned_fiction_type s d) (assigned_tags s d) = Inr (s', r')"
    and resp: "resp = load_recommendation s' r'"
    by (elim exE conjE)
  from resp have rr: "rr_recommendation resp = r'" by (simp add: load_recommendation_def)
  from commit_recommendation_update_row [OF c] obtain fid where
    r': "r' = (assigned_fields e r d)\<lparr>rec_fiction_type_id := fid\<rparr>"
    and tbl: "tbl_recommendation s' =
           map (\<lambda>x. if rec_id x = Some rid then r' else x) (tbl_recommendation s)"
    by blast
  from get_recommendation_by_id_found [OF assms(1)] have
    found: "find (\<lambda>r. rec_id r = Some rid) (tbl_recommendation s) = Some r"
    and range: "sqlite_integer rid" by simp_all
  from found have "rec_id r = Some rid" by (rule find_satisfies)
  then have id': "rec_id r' = Some rid" by (simp add: r' assigned_fields_def)
  have "find (\<lambda>x. rec_id x = Some rid)
          (map (\<lambda>x. if rec_id x = Some rid then r' else x) (tbl_recommendation s)) = Some r'"
    using found id' by (intro find_replace) auto
  then have "get_recommendation_by_id s' rid = Inr (Some r')"
    by (simp add: get_recommendation_by_id_def tbl range)
  with rr r' show ?thesis by blast
qed

lemma update_recommendation_unset:
  assumes "get_recommendation_by_id s rid = Inr (Some r)" "Some (rec_user_id r) = usr_id u"
    "\<not> no_data d'"
    "assigned_fields e r d = assigned_fields e r d'"
    "ru_fiction_type d = ru_fiction_type d'" "ru_tags d = ru_tags d'"
    "no_data d \<Longrightarrow> no_data d'"
  shows "update_recommendation e s rid u d = update_recommendation e s rid u d'"
proof -
  from assms(3,7) have nd: "\<not> no_data d" by blast
  show ?thesis
    unfolding update_recommendation_shape [OF assms(1,2) nd]
      update_recommendation_shape [OF assms(1,2,3)]
    by (simp add: assms(4,5,6) assigned_fiction_type_def assigned_tags_def)
qed

lemma assigned_fields_unset:
  "\<not> truthy (get_field (ru_title d)) \<Longrightarrow>
     assigned_fields e r d = assigned_fields e r (d\<lparr>ru_title := Unset\<rparr>)"
  "\<not> truthy (get_field (ru_short_description d)) \<Longrightarrow>
     assigned_fields e r d = assigned_fields e r (d\<lparr>ru_short_description := Unset\<rparr>)"
  "\<not> truthy (get_field (ru_opinion d)) \<Longrightarrow>
     assigned_fields e r d = assigned_fields e r (d\<lparr>ru_opinion := Unset\<rparr>)"
  by (simp_all add: assigned_fields_def)

lemma no_data_unset:
  "no_data d \<Longrightarrow> no_data (d\<lparr>ru_title := Unset\<rparr>)"
  "no_data d \<Longrightarrow> no_data (d\<lparr>ru_short_description := Unset\<rparr>)"
  "no_data d \<Longrightarrow> no_data (d\<lparr>ru_opinion := Unset\<rparr>)"
  by (simp_all add: no_data_def)

lemma assigned_fields_kept:
  "\<not> truthy (get_field (ru_title d)) \<Longrightarrow>
     rec_title ((assigned_fields e r d)\<lparr>rec_fiction_type_id := fid\<rparr>) = rec_title r"
  "\<not> truthy (get_field (ru_short_description d)) \<Longrightarrow>
     rec_short_description ((assigned_fields e r d)\<lparr>rec_fiction_type_id := fid\<rparr>) =
     rec_short_description r"
  "\<not> truthy (get_field (ru_opinion d)) \<Longrightarrow>
     rec_opinion ((assigned_fields e r d)\<lparr>rec_fiction_type_id := fid\<rparr>) = rec_opinion r"
  by (simp_all add: assigned_fields_def)

text \<open>
  C8. In \<open>update_recommendation\<close> by the owner of an existing recommendation, a
  \<open>title\<close>, \<open>short_description\<close> or \<open>opinion\<close> that the body gives with a falsy value
  (the empty string, or \<open>null\<close>) is handled as if the body did not mention it: the
  outcome equals the outcome of the same body without the field, whenever that body
  still mentions some field, and on success the stored field keeps its previous value.
\<close>

theorem falsy_update_value_is_absent:
  assumes "get_recommendation_by_id s rid = Inr (Some r)" "usr_id u = Some (rec_user_id r)"
  shows
   "(\<not> truthy (get_field (ru_title d)) \<longrightarrow>
       (\<not> no_data (d\<lparr>ru_title := Unset\<rparr>) \<longrightarrow>
          update_recommendation e s rid u d =
          update_recommendation e s rid u (d\<lparr>ru_title := Unset\<rparr>)) \<and>
       (\<forall>resp s'. update_recommendation e s rid u d = (Inr resp, s') \<longrightarrow>
          rec_title (rr_recommendation resp) = rec_title r \<and>
          get_recommendation_by_id s' rid = Inr (Some (rr_recommendation resp)))) \<and>
    (\<not> truthy (get_field (ru_short_description d)) \<longrightarrow>
       (\<not> no_data (d\<lparr>ru_short_description := Unset\<rparr>) \<longrightarrow>
          update_recommendation e s rid u d =
          update_recommendation e s rid u (d\<lparr>ru_short_description := Unset\<rparr>)) \<and>
       (\<forall>resp s'. update_recommendation e s rid u d = (Inr resp, s') \<longrightarrow>
          rec_short_description (rr_recommendation resp) = rec_short_description r \<and>
          get_recommendation_by_id s' rid = Inr (Some (rr_recommendation resp)))) \<and>
    (\<not> truthy (get_field (ru_opinion d)) \<longrightarrow>
       (\<not> no_data (d\<lparr>ru_opinion := Unset\<rparr>) \<longrightarrow>
          update_recommendation e s rid u d =
          update_recommendation e s rid u (d\<lparr>ru_opinion := Unset\<rparr>)) \<and>
       (\<forall>resp s'. update_recommendation e s rid u d = (Inr resp, s') \<longrightarrow>
          rec_opinion (rr_recommendation resp) = rec_opinion r \<and>
          get_recommendation_by_id s' rid = Inr (Some (rr_recommendation resp))))"
proof -
  have own: "Some (rec_user_id r) = usr_id u" using assms(2) by simp
  note stored = update_recommendation_stored [OF assms(1) own]
  have t1: "update_recommendation e s rid u d =
            update_recommendation e s rid u (d\<lparr>ru_title := Unset\<rparr>)"
    if "\<not> truthy (get_field (ru_title d))" "\<not> no_data (d\<lparr>ru_title := Unset\<rparr>)"
    by (rule update_recommendation_unset [OF assms(1) own that(2)
          assigned_fields_unset(1) [OF that(1)] _ _ no_data_unset(1)]) simp_all
  have t2: "update_recommendation e s rid u d =
            update_recommendation e s rid u (d\<lparr>ru_short_description := Unset\<rparr>)"
    if "\<not> truthy (get_field (ru_short_description d))"
       "\<not> no_data (d\<lparr>ru_short_description := Unset\<rparr>)"
    by (rule update_recommendation_unset [OF assms(1) own that(2)
          assigned_fields_unset(2) [OF that(1)] _ _ no_data_unset(2)]) simp_all
  have t3: "update_recommendation e s rid u d =
            update_recommendation e s rid u (d\<lparr>ru_opinion := Unset\<rparr>)"
    if "\<not> truthy (get_field (ru_opinion d))" "\<not> no_data (d\<lparr>ru_opinion := Unset\<rparr>)"
    by (rule update_recommendation_unset [OF assms(1) own that(2)
          assigned_fields_unset(3) [OF that(1)] _ _ no_data_unset(3)]) simp_all
  have s1: "rec_title (rr_recommendation resp) = rec_title r \<and>
            get_recommendation_by_id s' rid = Inr (Some (rr_recommendation resp))"
    if "\<not> truthy (get_field (ru_title d))"
       "update_recommendation e s rid u d = (Inr resp, s')" for resp s'
    using stored [OF that(2)] assigned_fields_kept(1) [OF that(1)] by metis
  have s2: "rec_short_description (rr_recommendation resp) = rec_short_description r \<and>
            get_recommendation_by_id s' rid = Inr (Some (rr_recommendation resp))"
    if "\<not> truthy (get_field (ru_short_description d))"
       "update_recommendation e s rid u d = (Inr resp, s')" for resp s'
    using stored [OF that(2)] assigned_fields_kept(2) [OF that(1)] by metis
  have s3: "rec_opinion (rr_recommendation resp) = rec_opinion r \<and>
            get_recommendation_by_id s' rid = Inr (Some (rr_recommendation resp))"
    if "\<not> truthy (get_field (ru_opinion d))"
       "update_recommendation e s rid u d = (Inr resp, s')" for resp s'
    using stored [OF that(2)] assigned_fields_kept(3) [OF that(1)] by metis
  show ?thesis
    using t1 t2 t3 s1 s2 s3 by blast
qed

text \<open>
  At the example database: the body with an empty title and a new opinion succeeds,
  equals the body without the title, and the stored title is still \<open>Interstellar\<close>.
\<close>

theorem falsy_update_value_is_absent_witness:
  "get_recommendation_by_id example_db 1 = Inr (Some example_recommendation) \<and>
   usr_id alice = Some (rec_user_id example_recommendation) \<and>
   \<not> truthy (get_field (ru_title empty_title_update)) \<and>
   \<not> no_data (empty_title_update\<lparr>ru_title := Unset\<rparr>) \<and>
   update_recommendation example_env example_db 1 alice empty_title_update =
     update_recommendation example_env example_db 1 alice
       (empty_title_update\<lparr>ru_title := Unset\<rparr>) \<and>
   (\<exists>resp s'. update_recommendation example_env example_db 1 alice empty_title_update =
        (Inr resp, s') \<and>
      rec_title (rr_recommendation resp) = ''Interstellar'' \<and>
      get_recommendation_by_id s' 1 = Inr (Some (rr_recommendation resp)))"
proof -
  have h: "get_recommendation_by_id example_db 1 = Inr (Some example_recommendation)"
    "usr_id alice = Some (rec_user_id example_recommendation)"
    "\<not> truthy (get_field (ru_title empty_title_update))"
    "\<not> no_data (empty_title_update\<lparr>ru_title := Unset\<rparr>)"
    by (simp_all add: lookup_defs example_defs no_data_def)
  have t: "rec_title example_recommendation = ''Interstellar''"
    by (simp add: example_recommendation_def)
  have "raised (update_recommendation example_env example_db 1 alice empty_title_update) = None"
    by code_simp
  then obtain resp s' where
    ok: "update_recommendation example_env example_db 1 alice empty_title_update = (Inr resp, s')"
    by (cases "update_recommendation example_env example_db 1 alice empty_title_update")
       (auto simp: raised_def split: sum.splits)
  note a = falsy_update_value_is_absent [OF h(1,2), of empty_title_update example_env]
  from a h(3,4) have 1:
    "update_recommendation example_env example_db 1 alice empty_title_update =
     update_recommendation example_env example_db 1 alice
       (empty_title_update\<lparr>ru_title := Unset\<rparr>)"
    by blast
  from a h(3) ok have 2: "rec_title (rr_recommendation resp) = rec_title example_recommendation \<and>
      get_recommendation_by_id s' 1 = Inr (Some (rr_recommendation resp))"
    by blast
  from 2 t ok have 3: "\<exists>resp s'.
      update_recommendation example_env example_db 1 alice empty_title_update = (Inr resp, s') \<and>
      rec_title (rr_recommendation resp) = ''Interstellar'' \<and>
      get_recommendation_by_id s' 1 = Inr (Some (rr_recommendation resp))"
    by (intro exI [of _ resp] exI [of _ s']) simp
  show ?thesis using h 1 3 by blast
qed

subsection \<open>The default of \<open>published\<close>\<close>

lemma post_comment_created:
  assumes "post_comment e s rid u cc = (Inr c, s')"
  shows "tbl_comment s' = tbl_comment s @ [c] \<and>
         com_id c = Some (fresh_id (map com_id (tbl_comment s))) \<and>
         com_published c = env_comment_published_default e"
  using assms unfolding post_comment_def Let_def
  by (auto split: sum.splits option.splits)

lemma post_comment_succeeds:
  assumes "get_recommendation_by_id s rid = Inr (Some r)" "usr_id u = Some uid"
  shows "\<exists>c s'. post_comment e s rid u cc = (Inr c, s')"
proof -
  from get_recommendation_by_id_found [OF assms(1)] have "rec_id r = Some rid"
    using find_satisfies [of "\<lambda>r. rec_id r = Some rid" "tbl_recommendation s" r] by blast
  with assms show ?thesis by (simp add: post_comment_def Let_def)
qed

lemma commit_new_recommendation_row:
  assumes "commit_new_recommendation s t sd op pub f ts u = Inr (s', row)"
  shows "tbl_recommendation s' = tbl_recommendation s @ [row] \<and>
         rec_id row = Some (fresh_id (map rec_id (tbl_recommendation s))) \<and>
         rec_published row = pub"
  using assms unfolding commit_new_recommendation_def Let_def
  by (auto split: option.splits sum.splits prod.splits)

lemma post_recommendation_created:
  assumes "post_recommendation e s rc u = (Inr resp, s')"
  shows "tbl_recommendation s' = tbl_recommendation s @ [rr_recommendation resp] \<and>
         rec_id (rr_recommendation resp) =
           Some (fresh_id (map rec_id (tbl_recommendation s))) \<and>
         rec_published (rr_recommendation resp) = env_recommendation_published_default e"
proof -
  have eq: "(case commit_new_recommendation s (rc_title rc) (rc_short_description rc)
                (rc_opinion rc) (env_recommendation_published_default e)
                (save_fiction_type s (rc_fiction_type rc)) (save_tags s (rc_tags rc)) u of
           Inl err \<Rightarrow> (Inl err, s)
         | Inr (s', r') \<Rightarrow> (Inr (load_recommendation s' r'), s')) = (Inr resp, s')"
    using assms unfolding post_recommendation_def post_recommendation_at_def Let_def .
  from commit_case_Inr [OF eq] obtain r' where
    c: "commit_new_recommendation s (rc_title rc) (rc_short_description rc)
                (rc_opinion rc) (env_recommendation_published_default e)
                (save_fiction_type s (rc_fiction_type rc)) (save_tags s (rc_tags rc)) u
        = Inr (s', r')"
    and resp: "resp = load_recommendation s' r'"
    by (elim exE conjE)
  from resp have "rr_recommendation resp = r'" by (simp add: load_recommendation_def)
  with commit_new_recommendation_row [OF c] show ?thesis by simp
qed

text \<open>
  C9. \<open>post_comment\<close> and \<open>post_recommendation\<close>, when they succeed, append one new row
  (a row with a primary key no row had) to their table, and \<open>post_comment\<close> succeeds
  whenever the recommendation is found and the user has an id. The \<open>published\<close> value
  of the created row is the default computed when models.py was imported: two rows
  created by requests of the same process carry the same \<open>published\<close> value, whatever
  the clock reads at either request.
\<close>

theorem published_default_fixed_at_import:
  "(post_comment e s rid u cc = (Inr c, s') \<and>
    post_comment e' t rid' u' cc' = (Inr c', t') \<and>
    env_comment_published_default e = env_comment_published_default e' \<longrightarrow>
      tbl_comment s' = tbl_comment s @ [c] \<and>
      com_id c \<notin> set (map com_id (tbl_comment s)) \<and>
      tbl_comment t' = tbl_comment t @ [c'] \<and>
      com_id c' \<notin> set (map com_id (tbl_comment t)) \<and>
      com_published c = env_comment_published_default e \<and>
      com_published c = com_published c') \<and>
   (get_recommendation_by_id s rid = Inr (Some r) \<and> usr_id u = Some uid \<longrightarrow>
      (\<exists>c s'. post_comment e s rid u cc = (Inr c, s'))) \<and>
   (post_recommendation e p rc v = (Inr resp, p') \<and>
    post_recommendation e' q rc' v' = (Inr resp', q') \<and>
    env_recommendation_published_default e = env_recommendation_published_default e' \<longrightarrow>
      tbl_recommendation p' = tbl_recommendation p @ [rr_recommendation resp] \<and>
      rec_id (rr_recommendation resp) \<notin> set (map rec_id (tbl_recommendation p)) \<and>
      tbl_recommendation q' = tbl_recommendation q @ [rr_recommendation resp'] \<and>
      rec_id (rr_recommendation resp') \<notin> set (map rec_id (tbl_recommendation q)) \<and>
      rec_published (rr_recommendation resp) = env_recommendation_published_default e \<and>
      rec_published (rr_recommendation resp) = rec_published (rr_recommendation resp'))"
proof (intro conjI impI)
  assume a: "post_comment e s rid u cc = (Inr c, s') \<and>
    post_comment e' t rid' u' cc' = (Inr c', t') \<and>
    env_comment_published_default e = env_comment_published_default e'"
  then have p1: "post_comment e s rid u cc = (Inr c, s')"
    and p2: "post_comment e' t rid' u' cc' = (Inr c', t')"
    and d: "env_comment_published_default e = env_comment_published_default e'"
    by simp_all
  note k1 = post_comment_created [OF p1]
  note k2 = post_comment_created [OF p2]
  show "tbl_comment s' = tbl_comment s @ [c]" using k1 by simp
  show "tbl_comment t' = tbl_comment t @ [c']" using k2 by simp
  show "com_id c \<notin> set (map com_id (tbl_comment s))"
    using k1 fresh_id_fresh [of "map com_id (tbl_comment s)"] by simp
  show "com_id c' \<notin> set (map com_id (tbl_comment t))"
    using k2 fresh_id_fresh [of "map com_id (tbl_comment t)"] by simp
  show "com_published c = env_comment_published_default e" using k1 by simp
  show "com_published c = com_published c'" using k1 k2 d by simp
next
  assume "get_recommendation_by_id s rid = Inr (Some r) \<and> usr_id u = Some uid"
  then show "\<exists>c s'. post_comment e s rid u cc = (Inr c, s')"
    using post_comment_succeeds by blast
next
  assume a: "post_recommendation e p rc v = (Inr resp, p') \<and>
    post_recommendation e' q rc' v' = (Inr resp', q') \<and>
    env_recommendation_published_default e = env_recommendation_published_default e'"
  then have p1: "post_recommendation e p rc v = (Inr resp, p')"
    and p2: "post_recommendation e' q rc' v' = (Inr resp', q')"
    and d: "env_recommendation_published_default e = env_recommendation_published_default e'"
    by simp_all
  note k1 = post_recommendation_created [OF p1]
  note k2 = post_recommendation_created [OF p2]
  show "tbl_recommendation p' = tbl_recommendation p @ [rr_recommendation resp]"
    using k1 by simp
  show "tbl_recommendation q' = tbl_recommendation q @ [rr_recommendation resp']"
    using k2 by simp
  show "rec_id (rr_recommendation resp) \<notin> set (map rec_id (tbl_recommendation p))"
    using k1 fresh_id_fresh [of "map rec_id (tbl_recommendation p)"] by simp
  show "rec_id (rr_recommendation resp') \<notin> set (map rec_id (tbl_recommendation q))"
    using k2 fresh_id_fresh [of "map rec_id (tbl_recommendation q)"] by simp
  show "rec_published (rr_recommendation resp) = env_recommendation_published_default e"
    using k1 by simp
  show "rec_published (rr_recommendation resp) = rec_published (rr_recommendation resp')"
    using k1 k2 d by simp
qed

text \<open>
  Two comments and two recommendations posted one after the other at different clock
  readings of one process: each post appends its row, the comments both carry the
  default 1001 and the recommendations the default 1000.
\<close>

theorem published_default_fixed_at_import_witness:
  "env_utcnow example_env \<noteq> env_utcnow later_env \<and>
   env_comment_published_default example_env = env_comment_published_default later_env \<and>
   env_recommendation_published_default example_env =
     env_recommendation_published_default later_env \<and>
   get_recommendation_by_id example_db 1 = Inr (Some example_recommendation) \<and>
   usr_id alice = Some 1 \<and>
   (\<exists>c1 s1 c2 s2.
      post_comment example_env example_db 1 alice \<lparr>cc_content = ''first''\<rparr> = (Inr c1, s1) \<and>
      post_comment later_env s1 1 bob \<lparr>cc_content = ''second''\<rparr> = (Inr c2, s2) \<and>
      tbl_comment s1 = tbl_comment example_db @ [c1] \<and>
      tbl_comment s2 = tbl_comment example_db @ [c1, c2] \<and>
      com_id c1 \<notin> set (map com_id (tbl_comment example_db)) \<and>
      com_published c1 = 1001 \<and> com_published c2 = 1001) \<and>
   (\<exists>r1 t1 r2 t2.
      post_recommendation example_env example_db one_label alice = (Inr r1, t1) \<and>
      post_recommendation later_env t1 one_label bob = (Inr r2, t2) \<and>
      tbl_recommendation t1 = tbl_recommendation example_db @ [rr_recommendation r1] \<and>
      tbl_recommendation t2 =
        tbl_recommendation example_db @ [rr_recommendation r1, rr_recommendation r2] \<and>
      rec_published (rr_recommendation r1) = 1000 \<and>
      rec_published (rr_recommendation r2) = 1000)"
proof -
  have e: "env_utcnow example_env \<noteq> env_utcnow later_env"
    "env_comment_published_default example_env = env_comment_published_default later_env"
    "env_recommendation_published_default example_env =
       env_recommendation_published_default later_env"
    "env_comment_published_default example_env = 1001"
    "env_recommendation_published_default example_env = 1000"
    by (simp_all add: example_defs)
  have h: "get_recommendation_by_id example_db 1 = Inr (Some example_recommendation)"
    "usr_id alice = Some 1"
    by (simp_all add: lookup_defs example_defs)
  from published_default_fixed_at_import [where e = example_env and s = example_db
      and rid = 1 and u = alice and cc = "\<lparr>cc_content = ''first''\<rparr>"
      and r = example_recommendation and uid = 1, THEN conjunct2, THEN conjunct1] h
  obtain c1 s1 where
    p1: "post_comment example_env example_db 1 alice \<lparr>cc_content = ''first''\<rparr> = (Inr c1, s1)"
    by blast
  have "raised (post_comment later_env
          (snd (post_comment example_env example_db 1 alice \<lparr>cc_content = ''first''\<rparr>))
          1 bob \<lparr>cc_content = ''second''\<rparr>) = None"
    by code_simp
  then obtain c2 s2 where
    p2: "post_comment later_env s1 1 bob \<lparr>cc_content = ''second''\<rparr> = (Inr c2, s2)"
    unfolding p1
    by (cases "post_comment later_env s1 1 bob \<lparr>cc_content = ''second''\<rparr>")
       (auto simp: raised_def split: sum.splits)
  from published_default_fixed_at_import [where e = example_env and s = example_db
      and rid = 1 and u = alice and cc = "\<lparr>cc_content = ''first''\<rparr>" and c = c1 and s' = s1
      and e' = later_env and t = s1 and rid' = 1 and u' = bob
      and cc' = "\<lparr>cc_content = ''second''\<rparr>" and c' = c2 and t' = s2]
    p1 p2 e(2)
  have k: "tbl_comment s1 = tbl_comment example_db @ [c1]"
      "com_id c1 \<notin> set (map com_id (tbl_comment example_db))"
      "tbl_comment s2 = tbl_comment s1 @ [c2]"
      "com_published c1 = env_comment_published_default example_env"
      "com_published c1 = com_published c2"
    by blast+
  have comments: "\<exists>c1 s1 c2 s2.
      post_comment example_env example_db 1 alice \<lparr>cc_content = ''first''\<rparr> = (Inr c1, s1) \<and>
      post_comment later_env s1 1 bob \<lparr>cc_content = ''second''\<rparr> = (Inr c2, s2) \<and>
      tbl_comment s1 = tbl_comment example_db @ [c1] \<and>
      tbl_comment s2 = tbl_comment example_db @ [c1, c2] \<and>
      com_id c1 \<notin> set (map com_id (tbl_comment example_db)) \<and>
      com_published c1 = 1001 \<and> com_published c2 = 1001"
    using p1 p2 k e(4)
    by (intro exI [of _ c1] exI [of _ s1] exI [of _ c2] exI [of _ s2]) simp
  have "raised (post_recommendation example_env example_db one_label alice) = None"
    by code_simp
  then obtain r1 t1 where
    q1: "post_recommendation example_env example_db one_label alice = (Inr r1, t1)"
    by (cases "post_recommendation example_env example_db one_label alice")
       (auto simp: raised_def split: sum.splits)
  have "raised (post_recommendation later_env
          (snd (post_recommendation example_env example_db one_label alice))
          one_label bob) = None"
    by code_simp
  then obtain r2 t2 where
    q2: "post_recommendation later_env t1 one_label bob = (Inr r2, t2)"
    unfolding q1
    by (cases "post_recommendation later_env t1 one_label bob")
       (auto simp: raised_def split: sum.splits)
  from published_default_fixed_at_import [where e = example_env and p = example_db
      and rc = one_label and v = alice and resp = r1 and p' = t1
      and e' = later_env and q = t1 and rc' = one_label and v' = bob and resp' = r2 and q' = t2]
    q1 q2 e(3)
  have m: "tbl_recommendation t1 = tbl_recommendation example_db @ [rr_recommendation r1]"
      "tbl_recommendation t2 = tbl_recommendation t1 @ [rr_recommendation r2]"
      "rec_published (rr_recommendation r1) = env_recommendation_published_default example_env"
      "rec_published (rr_recommendation r1) = rec_published (rr_recommendation r2)"
    by blast+
  have recommendations: "\<exists>r1 t1 r2 t2.
      post_recommendation example_env example_db one_label alice = (Inr r1, t1) \<and>
      post_recommendation later_env t1 one_label bob = (Inr r2, t2) \<and>
      tbl_recommendation t1 = tbl_recommendation example_db @ [rr_recommendation r1] \<and>
      tbl_recommendation t2 =
        tbl_recommendation example_db @ [rr_recommendation r1, rr_recommendation r2] \<and>
      rec_published (rr_recommendation r1) = 1000 \<and>
      rec_published (rr_recommendation r2) = 1000"
    using q1 q2 m e(5)
    by (intro exI [of _ r1] exI [of _ t1] exI [of _ r2] exI [of _ t2]) simp
  show ?thesis
    using e(1,2,3) h comments recommendations by blast
qed

subsection \<open>A comment updated with empty content\<close>

text \<open>
  C10. \<open>update_comment\<close> by the owner of an existing comment with the empty string as
  content succeeds: the comment returned and stored is the comment found with
  \<open>updated\<close> set to the current time; its content, \<open>user_id\<close> and
  \<open>recommendation_id\<close> are unchanged.
\<close>

theorem update_comment_empty_content:
  assumes "get_recommendation_by_id s rid = Inr (Some r)"
    "get_comment_by_id_and_recommendation_id s rid cid = Inr (Some c)"
    "usr_id u = Some (com_user_id c)" "cu_content d = []"
  shows "fst (update_comment e s rid cid d u) = Inr (c\<lparr>com_updated := Some (env_utcnow e)\<rparr>) \<and>
         get_comment_by_id_and_recommendation_id (snd (update_comment e s rid cid d u)) rid cid =
           Inr (Some (c\<lparr>com_updated := Some (env_utcnow e)\<rparr>)) \<and>
         com_content (c\<lparr>com_updated := Some (env_utcnow e)\<rparr>) = com_content c \<and>
         com_updated (c\<lparr>com_updated := Some (env_utcnow e)\<rparr>) = Some (env_utcnow e) \<and>
         com_user_id (c\<lparr>com_updated := Some (env_utcnow e)\<rparr>) = com_user_id c \<and>
         com_recommendation_id (c\<lparr>com_updated := Some (env_utcnow e)\<rparr>) =
           com_recommendation_id c"
proof -
  let ?c' = "c\<lparr>com_updated := Some (env_utcnow e)\<rparr>"
  have own: "\<not> Some (com_user_id c) \<noteq> usr_id u" using assms(3) by simp
  have res: "update_comment e s rid cid d u =
      (Inr ?c', s\<lparr>tbl_comment := map (\<lambda>y. if com_id y = Some cid then ?c' else y)
                                    (tbl_comment s)\<rparr>)"
    using assms(1,2,4) own unfolding update_comment_def Let_def by simp
  from get_comment_found [OF assms(2)] have
    found: "find (\<lambda>c. com_recommendation_id c = rid \<and> com_id c = Some cid)
              (tbl_comment s) = Some c"
    and range: "sqlite_integer rid" "sqlite_integer cid" by simp_all
  have P: "com_recommendation_id c = rid \<and> com_id c = Some cid"
    using found by (rule find_satisfies)
  have "find (\<lambda>y. com_recommendation_id y = rid \<and> com_id y = Some cid)
          (map (\<lambda>y. if com_id y = Some cid then ?c' else y) (tbl_comment s)) = Some ?c'"
    using found P by (intro find_replace) auto
  then show ?thesis
    by (simp add: res get_comment_by_id_and_recommendation_id_def range)
qed

text \<open>At the example database, at clock reading 5000.\<close>

theorem update_comment_empty_content_witness:
  "get_recommendation_by_id example_db 1 = Inr (Some example_recommendation) \<and>
   get_comment_by_id_and_recommendation_id example_db 1 1 = Inr (Some example_comment) \<and>
   usr_id alice = Some (com_user_id example_comment) \<and> cu_content empty_content = [] \<and>
   fst (update_comment example_env example_db 1 1 empty_content alice) =
     Inr (example_comment\<lparr>com_updated := Some 5000\<rparr>) \<and>
   get_comment_by_id_and_recommendation_id
     (snd (update_comment example_env example_db 1 1 empty_content alice)) 1 1 =
     Inr (Some (example_comment\<lparr>com_updated := Some 5000\<rparr>)) \<and>
   com_content (example_comment\<lparr>com_updated := Some 5000\<rparr>) = ''My comment''"
proof -
  have h: "get_recommendation_by_id example_db 1 = Inr (Some example_recommendation)"
    "get_comment_by_id_and_recommendation_id example_db 1 1 = Inr (Some example_comment)"
    "usr_id alice = Some (com_user_id example_comment)" "cu_content empty_content = []"
    by (simp_all add: lookup_defs example_defs)
  have n: "env_utcnow example_env = 5000" "com_content example_comment = ''My comment''"
    by (simp_all add: example_defs)
  from update_comment_empty_content [OF h, of example_env] n h
  show ?thesis by simp
qed

end
